theory Spec2Isabelle
  imports Complex_Main "HOL-Library.Multiset"
begin

section \<open>Numbers as decimal strings\<close>

text \<open>
  Template literals and \<open>JSON.stringify\<close> print a number in decimal; the numbers
  the services print are integers (HTTP statuses, epoch milliseconds).
\<close>

function string_of_nat :: "nat \<Rightarrow> string" where
  "string_of_nat n =
     (if n < 10 then [''0123456789'' ! n]
      else string_of_nat (n div 10) @ [''0123456789'' ! (n mod 10)])"
  by pat_completeness auto
termination
  by (relation "measure (\<lambda>n. n)") auto

declare string_of_nat.simps [simp del]

definition string_of_int :: "int \<Rightarrow> string" where
  "string_of_int i = (if i < 0 then ''-'' @ string_of_nat (nat (- i)) else string_of_nat (nat i))"

section \<open>Errors (src/utils/errorHandler.ts)\<close>

text \<open>
  An \<open>AppError\<close> carries a message and a code; the code is an HTTP status (a number) or
  one of the string codes used in the services. The \<open>details\<close> and \<open>userMessage\<close>
  fields only feed the log and the user interface and are left out.
\<close>

datatype ErrorCode =
    HttpStatus nat
  | NETWORK_ERROR
  | UNKNOWN_ERROR
  | INVALID_TOKEN
  | NOT_CONNECTED

datatype AppError = AppError (error_message: string) (code: ErrorCode)

text \<open>
  What a JavaScript \<open>catch\<close> can receive: an \<open>AppError\<close>, any other \<open>Error\<close> object
  (with its \<open>name\<close> and \<open>message\<close>), or a value that is not an \<open>Error\<close> at all.
\<close>

datatype thrown =
    ThrownAppError AppError
  | JsError (err_name: string) (err_message: string)
  | NonError

fun instanceof_Error :: "thrown \<Rightarrow> bool" where
  "instanceof_Error (ThrownAppError e) = True"
| "instanceof_Error (JsError n m) = True"
| "instanceof_Error NonError = False"

fun thrown_name :: "thrown \<Rightarrow> string" where
  "thrown_name (ThrownAppError e) = ''AppError''"
| "thrown_name (JsError n m) = n"
| "thrown_name NonError = []"

fun thrown_message :: "thrown \<Rightarrow> string" where
  "thrown_message (ThrownAppError e) = error_message e"
| "thrown_message (JsError n m) = m"
| "thrown_message NonError = []"

text \<open>\<open>ErrorHandler.handle\<close>: an \<open>AppError\<close> is returned as it is, anything else is wrapped.\<close>

fun handle :: "thrown \<Rightarrow> AppError" where
  "handle (ThrownAppError e) = e"
| "handle (JsError n m) = AppError m UNKNOWN_ERROR"
| "handle NonError = AppError ''Unknown error occurred'' UNKNOWN_ERROR"

text \<open>\<open>ErrorHandler.handleApiError\<close>, from the status and status text of the response.\<close>

definition handleApiError :: "nat \<Rightarrow> string \<Rightarrow> AppError" where
  "handleApiError st stText =
     AppError (''API Error: '' @ string_of_nat st @ '' '' @ stText) (HttpStatus st)"

text \<open>\<open>ErrorHandler.handleNetworkError\<close> ignores everything but the logging context.\<close>

definition handleNetworkError :: AppError where
  "handleNetworkError = AppError ''Network connection failed'' NETWORK_ERROR"

text \<open>\<open>String.prototype.includes\<close>: the pattern occurs as a contiguous substring.\<close>

fun includes_str :: "string \<Rightarrow> string \<Rightarrow> bool" where
  "includes_str [] p = (p = [])"
| "includes_str (c # cs) p = (take (length p) (c # cs) = p \<or> includes_str cs p)"

section \<open>Token service (src/services/tokenService.ts, src/config/constants.ts)\<close>

text \<open>The constants of \<open>APP_CONFIG\<close>, in milliseconds where they are times.\<close>

definition MAX_RETRY_ATTEMPTS :: nat where "MAX_RETRY_ATTEMPTS = 3"
definition RETRY_BASE_DELAY :: nat where "RETRY_BASE_DELAY = 1000"
definition CONNECTION_TIMEOUT :: nat where "CONNECTION_TIMEOUT = 10000"
definition TOKEN_REFRESH_BUFFER :: int where "TOKEN_REFRESH_BUFFER = 60000"

text \<open>
  \<open>TokenResponse\<close> (types/api.ts). A missing \<open>token\<close> is the empty string, a missing
  \<open>expires_at\<close> is \<open>None\<close>.
\<close>

record TokenResponse =
  token :: string
  url :: "string option"
  expires_at :: "int option"

text \<open>
  An HTTP response as the service reads it: the status (\<open>resp_status\<close> for
  \<open>response.status\<close>; \<open>response.ok\<close> is the range 200 to 299) and the result of \<open>response.json()\<close>, \<open>None\<close> when the body does not parse.
\<close>

record Response =
  resp_status :: nat
  statusText :: string
  json_body :: "TokenResponse option"

definition ok :: "Response \<Rightarrow> bool" where
  "ok r = (200 \<le> resp_status r \<and> resp_status r \<le> 299)"

text \<open>
  One call of \<open>fetch\<close> either resolves with a response, whatever its status, or rejects
  (an abort by the ten second timer, a network failure, anything else).
\<close>

datatype fetch_outcome = Resolved Response | Rejected thrown

text \<open>
  \<open>fetchWithRetry\<close>. The environment is the outcome of the fetch of each attempt
  (\<open>fetch attempt\<close>, attempts counted from 1 as in the source) and the value of
  \<open>Math.random()\<close> drawn before each wait (\<open>rnd attempt\<close>). The result records, besides
  the response or the error raised, how many times \<open>fetch\<close> was called and the waits
  between the attempts in order. \<open>lastError\<close> only fills the \<open>details\<close> of the error
  raised at the end and is left out with them.
\<close>

record fetch_result =
  outcome :: "AppError + Response"
  fetch_calls :: nat
  sleeps :: "real list"

definition give_up :: "nat \<Rightarrow> real list \<Rightarrow> fetch_result" where
  "give_up n slept = \<lparr>outcome = Inl handleNetworkError, fetch_calls = n, sleeps = slept\<rparr>"

text \<open>The test under the comment "Don't retry on certain errors": the loop goes on.\<close>

definition retryable :: "thrown \<Rightarrow> bool" where
  "retryable e =
     (if instanceof_Error e
      then thrown_name e = ''AbortError'' \<or> includes_str (thrown_message e) ''NetworkError''
      else True)"

function fetchWithRetry_loop ::
  "(nat \<Rightarrow> fetch_outcome) \<Rightarrow> (nat \<Rightarrow> real) \<Rightarrow> nat \<Rightarrow> nat \<Rightarrow> real list \<Rightarrow> fetch_result" where
  "fetchWithRetry_loop fetch rnd attempt delay slept =
     (if attempt \<le> MAX_RETRY_ATTEMPTS then
        (case fetch attempt of
           Resolved response \<Rightarrow>
             \<lparr>outcome = Inr response, fetch_calls = attempt, sleeps = slept\<rparr>
         | Rejected error \<Rightarrow>
             if attempt = MAX_RETRY_ATTEMPTS then give_up attempt slept
             else if \<not> retryable error then give_up attempt slept
             else fetchWithRetry_loop fetch rnd (attempt + 1) (min (delay * 2) 8000)
                    (slept @ [real delay + rnd attempt * 250]))
      else give_up (attempt - 1) slept)"
  by pat_completeness auto
termination
  by (relation "measure (\<lambda>(fetch, rnd, attempt, delay, slept). Suc MAX_RETRY_ATTEMPTS - attempt)") auto

declare fetchWithRetry_loop.simps [simp del]

definition fetchWithRetry :: "(nat \<Rightarrow> fetch_outcome) \<Rightarrow> (nat \<Rightarrow> real) \<Rightarrow> fetch_result" where
  "fetchWithRetry fetch rnd = fetchWithRetry_loop fetch rnd 1 RETRY_BASE_DELAY []"

text \<open>
  The state of the service. \<open>refreshTimer\<close> holds the delay of the pending refresh timer.
\<close>

record TokenService =
  currentToken :: "string option"
  tokenExpiresAt :: "int option"
  refreshTimer :: "int option"

definition scheduleTokenRefresh :: "int \<Rightarrow> TokenService \<Rightarrow> TokenService" where
  "scheduleTokenRefresh now s =
     (case tokenExpiresAt s of
        None \<Rightarrow> s\<lparr>refreshTimer := None\<rparr>
      | Some e \<Rightarrow>
          if e = 0 then s\<lparr>refreshTimer := None\<rparr>
          else s\<lparr>refreshTimer := Some (max 0 (e - TOKEN_REFRESH_BUFFER - now))\<rparr>)"

text \<open>
  \<open>requestToken\<close> returns the token data or raises; every raise inside the \<open>try\<close> goes
  through \<open>ErrorHandler.handle\<close>, which leaves an \<open>AppError\<close> as it is. The second
  component is how the fetch went, the third the state afterwards.
\<close>

definition requestToken ::
  "(nat \<Rightarrow> fetch_outcome) \<Rightarrow> (nat \<Rightarrow> real) \<Rightarrow> int \<Rightarrow> TokenService
     \<Rightarrow> (AppError + TokenResponse) \<times> fetch_result \<times> TokenService" where
  "requestToken fetch rnd now s =
     (let r = fetchWithRetry fetch rnd in
      case outcome r of
        Inl e \<Rightarrow> (Inl (handle (ThrownAppError e)), r, s)
      | Inr response \<Rightarrow>
          if \<not> ok response then
            (Inl (handle (ThrownAppError
               (handleApiError (resp_status response) (statusText response)))), r, s)
          else
            (case json_body response of
               None \<Rightarrow> (Inl (handle (JsError ''SyntaxError'' ''Unexpected token'')), r, s)
             | Some tokenData \<Rightarrow>
                 if token tokenData = [] then
                   (Inl (handle (ThrownAppError (AppError ''Invalid token response'' INVALID_TOKEN))), r, s)
                 else
                   let s1 = s\<lparr>currentToken := Some (token tokenData)\<rparr>;
                       s2 = (case expires_at tokenData of
                               None \<Rightarrow> s1
                             | Some e \<Rightarrow>
                                 if e = 0 then s1
                                 else scheduleTokenRefresh now (s1\<lparr>tokenExpiresAt := Some e\<rparr>))
                   in (Inr tokenData, r, s2)))"

definition isTokenValid :: "int \<Rightarrow> TokenService \<Rightarrow> bool" where
  "isTokenValid now s =
     (case (currentToken s, tokenExpiresAt s) of
        (Some t, Some e) \<Rightarrow> t \<noteq> [] \<and> e \<noteq> 0 \<and> now < e - TOKEN_REFRESH_BUFFER
      | _ \<Rightarrow> False)"

definition getValidToken ::
  "(nat \<Rightarrow> fetch_outcome) \<Rightarrow> (nat \<Rightarrow> real) \<Rightarrow> int \<Rightarrow> TokenService
     \<Rightarrow> (AppError + string) \<times> TokenService" where
  "getValidToken fetch rnd now s =
     (case currentToken s of
        Some t \<Rightarrow>
          if t \<noteq> [] \<and> isTokenValid now s then (Inr t, s)
          else (case requestToken fetch rnd now s of
                  (Inl e, r, s') \<Rightarrow> (Inl e, s')
                | (Inr tokenData, r, s') \<Rightarrow> (Inr (token tokenData), s'))
      | None \<Rightarrow>
          (case requestToken fetch rnd now s of
             (Inl e, r, s') \<Rightarrow> (Inl e, s')
           | (Inr tokenData, r, s') \<Rightarrow> (Inr (token tokenData), s')))"

definition clearToken :: "TokenService \<Rightarrow> TokenService" where
  "clearToken s = s\<lparr>currentToken := None, tokenExpiresAt := None, refreshTimer := None\<rparr>"

section \<open>JSON values\<close>

text \<open>
  What \<open>JSON.parse\<close> returns and \<open>JSON.stringify\<close> prints. Numbers on the wire are
  integers (epoch milliseconds, as \<open>Date.now()\<close> gives them). An object lists its
  members in order; a later member of the same name wins, as in \<open>JSON.parse\<close>.
\<close>

datatype json =
    JNull
  | JBool bool
  | JNum int
  | JStr string
  | JArr "json list"
  | JObj "(string \<times> json) list"

text \<open>Reading a property: \<open>None\<close> is JavaScript's \<open>undefined\<close>.\<close>

fun get_prop :: "json \<Rightarrow> string \<Rightarrow> json option" where
  "get_prop (JObj kvs) k = map_of (rev kvs) k"
| "get_prop v k = None"

fun truthy :: "json option \<Rightarrow> bool" where
  "truthy None = False"
| "truthy (Some JNull) = False"
| "truthy (Some (JBool b)) = b"
| "truthy (Some (JNum n)) = (n \<noteq> 0)"
| "truthy (Some (JStr s)) = (s \<noteq> [])"
| "truthy (Some (JArr xs)) = True"
| "truthy (Some (JObj kvs)) = True"

text \<open>
  \<open>JSON.stringify\<close>: strings are quoted. The quote and the backslash are escaped
  with a backslash, the code units below U+0020 by their short escape (\<open>b\<close>, \<open>t\<close>,
  \<open>n\<close>, \<open>f\<close>, \<open>r\<close>) or by \<open>u\<close> and four hexadecimal digits; every other
  character stands for itself. A character of the model is a code unit below U+0100.
\<close>

definition hex_digit :: "nat \<Rightarrow> char" where
  "hex_digit n = ''0123456789abcdef'' ! n"

definition escape_char :: "char \<Rightarrow> string" where
  "escape_char c =
     (if c = CHR 0x22 then [CHR 0x5C, CHR 0x22]
      else if c = CHR 0x5C then [CHR 0x5C, CHR 0x5C]
      else if (of_char c :: nat) < 32 then
        (if c = CHR 0x08 then [CHR 0x5C, CHR ''b'']
         else if c = CHR 0x09 then [CHR 0x5C, CHR ''t'']
         else if c = CHR 0x0A then [CHR 0x5C, CHR ''n'']
         else if c = CHR 0x0C then [CHR 0x5C, CHR ''f'']
         else if c = CHR 0x0D then [CHR 0x5C, CHR ''r'']
         else CHR 0x5C # ''u00'' @ [hex_digit (of_char c div 16), hex_digit (of_char c mod 16)])
      else [c])"

definition quote :: "string \<Rightarrow> string" where
  "quote s = [CHR 0x22] @ concat (map escape_char s) @ [CHR 0x22]"

fun stringify :: "json \<Rightarrow> string"
  and stringify_elems :: "json list \<Rightarrow> string"
  and stringify_members :: "(string \<times> json) list \<Rightarrow> string" where
  "stringify JNull = ''null''"
| "stringify (JBool b) = (if b then ''true'' else ''false'')"
| "stringify (JNum n) = string_of_int n"
| "stringify (JStr s) = quote s"
| "stringify (JArr xs) = ''['' @ stringify_elems xs @ '']''"
| "stringify (JObj kvs) = ''{'' @ stringify_members kvs @ ''}''"
| "stringify_elems [] = []"
| "stringify_elems [x] = stringify x"
| "stringify_elems (x # y # xs) = stringify x @ '','' @ stringify_elems (y # xs)"
| "stringify_members [] = []"
| "stringify_members [(k, v)] = quote k @ '':'' @ stringify v"
| "stringify_members ((k, v) # kv # kvs) =
     quote k @ '':'' @ stringify v @ '','' @ stringify_members (kv # kvs)"

section \<open>Chat messages (src/types/chat.ts)\<close>

text \<open>The field \<open>id\<close> is \<open>msg_id\<close> here and \<open>text\<close> is \<open>msg_text\<close>.\<close>

record ChatMessage =
  msg_id :: string
  senderId :: string
  senderName :: "string option"
  msg_text :: string
  ts :: int

record SendMessageOptions =
  retry :: "bool option"
  timeout :: "nat option"

text \<open>\<open>JSON.stringify(message)\<close> as a value: the members in the order of the object.\<close>

definition encode_message :: "ChatMessage \<Rightarrow> json" where
  "encode_message m =
     JObj ([(''id'', JStr (msg_id m)), (''senderId'', JStr (senderId m))]
           @ (case senderName m of None \<Rightarrow> [] | Some n \<Rightarrow> [(''senderName'', JStr n)])
           @ [(''text'', JStr (msg_text m)), (''ts'', JNum (ts m))])"

section \<open>LiveKit connection service (services/livekitService.ts)\<close>

datatype ConnectionState = Disconnected | Connecting | Connected | Reconnecting | Failed

record AudioState =
  isMuted :: bool
  isPublishing :: bool
  hasPermission :: bool
  audioLevel :: real

text \<open>
  The service object. \<open>room\<close> says whether a \<open>Room\<close> object is held. Besides the fields
  of the class the record keeps what the service does to the outside: the calls of the
  subscribers' handlers in order, the number of \<open>Room\<close> objects constructed, the number
  of calls of the transport's \<open>connect\<close> and \<open>disconnect\<close>, and the payloads handed to
  \<open>publishData\<close>. The token service is the module's singleton.
\<close>

record LiveKitService =
  room :: bool
  connectionState :: ConnectionState
  audioState :: AudioState
  audioLevelTimer :: bool
  reconnectAttempts :: nat
  tokenService :: TokenService
  onConnectionStateChanged_calls :: "ConnectionState list"
  onAudioStateChanged_calls :: "AudioState list"
  rooms_created :: nat
  room_connect_calls :: nat
  room_disconnect_calls :: nat
  publishData_calls :: "json list"

definition initial_AudioState :: AudioState where
  "initial_AudioState = \<lparr>isMuted = True, isPublishing = False, hasPermission = False, audioLevel = 0\<rparr>"

definition initial_LiveKitService :: LiveKitService where
  "initial_LiveKitService =
     \<lparr>room = False, connectionState = Disconnected, audioState = initial_AudioState,
      audioLevelTimer = False, reconnectAttempts = 0,
      tokenService = \<lparr>currentToken = None, tokenExpiresAt = None, refreshTimer = None\<rparr>,
      onConnectionStateChanged_calls = [], onAudioStateChanged_calls = [],
      rooms_created = 0, room_connect_calls = 0, room_disconnect_calls = 0,
      publishData_calls = []\<rparr>"

definition updateConnectionState :: "ConnectionState \<Rightarrow> LiveKitService \<Rightarrow> LiveKitService" where
  "updateConnectionState state s =
     (if connectionState s \<noteq> state
      then s\<lparr>connectionState := state,
             onConnectionStateChanged_calls := onConnectionStateChanged_calls s @ [state]\<rparr>
      else s)"

definition updateAudioState :: "AudioState \<Rightarrow> LiveKitService \<Rightarrow> LiveKitService" where
  "updateAudioState newState s =
     (if audioState s \<noteq> newState
      then s\<lparr>audioState := newState,
             onAudioStateChanged_calls := onAudioStateChanged_calls s @ [newState]\<rparr>
      else s)"

definition stopAudioLevelMonitoring :: "LiveKitService \<Rightarrow> LiveKitService" where
  "stopAudioLevelMonitoring s = s\<lparr>audioLevelTimer := False\<rparr>"

text \<open>
  \<open>connect\<close>. The environment: the fetches and random draws of the token service, the
  clock, and how the transport's \<open>room.connect\<close> ends (\<open>None\<close>: it resolves,
  \<open>Some e\<close>: it rejects with \<open>e\<close>).
\<close>

definition connect ::
  "(nat \<Rightarrow> fetch_outcome) \<Rightarrow> (nat \<Rightarrow> real) \<Rightarrow> int \<Rightarrow> thrown option \<Rightarrow> LiveKitService
     \<Rightarrow> (AppError + unit) \<times> LiveKitService" where
  "connect fetch rnd now room_connect s =
     (case getValidToken fetch rnd now (tokenService s) of
        (Inl e, t) \<Rightarrow>
          (Inl (handle (ThrownAppError e)), updateConnectionState Failed (s\<lparr>tokenService := t\<rparr>))
      | (Inr tok, t) \<Rightarrow>
          let s0 = s\<lparr>tokenService := t\<rparr>;
              s1 = (if \<not> room s0 then s0\<lparr>room := True, rooms_created := Suc (rooms_created s0)\<rparr>
                    else s0);
              s2 = updateConnectionState Connecting s1;
              s3 = s2\<lparr>room_connect_calls := Suc (room_connect_calls s2)\<rparr>
          in (case room_connect of
                None \<Rightarrow> (Inr (), (updateConnectionState Connected s3)\<lparr>reconnectAttempts := 0\<rparr>)
              | Some e \<Rightarrow> (Inl (handle e), updateConnectionState Failed s3)))"

text \<open>
  \<open>disconnect\<close>, with how the transport's \<open>room.disconnect\<close> ends. The \<open>catch\<close>
  block raises again what the \<open>try\<close> block raised.
\<close>

definition disconnect :: "thrown option \<Rightarrow> LiveKitService \<Rightarrow> (AppError + unit) \<times> LiveKitService" where
  "disconnect room_disconnect s =
     (let s1 = stopAudioLevelMonitoring s in
      if room s1 \<and> room_disconnect \<noteq> None then
        (Inl (handle (the room_disconnect)),
         s1\<lparr>room_disconnect_calls := Suc (room_disconnect_calls s1)\<rparr>)
      else
        let s2 = (if room s1
                  then s1\<lparr>room := False, room_disconnect_calls := Suc (room_disconnect_calls s1)\<rparr>
                  else s1);
            s3 = s2\<lparr>tokenService := clearToken (tokenService s2)\<rparr>;
            s4 = updateConnectionState Disconnected s3;
            s5 = updateAudioState
                   \<lparr>isMuted = True, isPublishing = False, hasPermission = False, audioLevel = 0\<rparr> s4
        in (Inr (), s5))"

text \<open>
  \<open>sendChatMessage\<close>, with how \<open>publishData\<close> ends. The payload is the UTF-8 encoding
  of \<open>JSON.stringify(message)\<close>; it is recorded as the JSON value.
\<close>

definition sendChatMessage ::
  "thrown option \<Rightarrow> ChatMessage \<Rightarrow> LiveKitService \<Rightarrow> (AppError + unit) \<times> LiveKitService" where
  "sendChatMessage publishData m s =
     (if \<not> room s then (Inl (handle (ThrownAppError (AppError ''Not connected to room'' NOT_CONNECTED))), s)
      else
        let s1 = s\<lparr>publishData_calls := publishData_calls s @ [encode_message m]\<rparr>
        in (case publishData of None \<Rightarrow> (Inr (), s1) | Some e \<Rightarrow> (Inl (handle e), s1)))"

text \<open>The listeners of \<open>setupRoomEventListeners\<close> that touch the connection state.\<close>

datatype RoomEvent = RoomConnected | RoomDisconnected | RoomReconnecting | RoomReconnected

fun on_RoomEvent :: "RoomEvent \<Rightarrow> LiveKitService \<Rightarrow> LiveKitService" where
  "on_RoomEvent RoomConnected s = updateConnectionState Connected s"
| "on_RoomEvent RoomDisconnected s = updateConnectionState Disconnected s"
| "on_RoomEvent RoomReconnecting s = updateConnectionState Reconnecting s"
| "on_RoomEvent RoomReconnected s = (updateConnectionState Connected s)\<lparr>reconnectAttempts := 0\<rparr>"

text \<open>The operations of the connection service that touch the connection state.\<close>

datatype LiveKit_op =
    Op_connect "nat \<Rightarrow> fetch_outcome" "nat \<Rightarrow> real" int "thrown option"
  | Op_disconnect "thrown option"
  | Op_event RoomEvent

fun do_op :: "LiveKit_op \<Rightarrow> LiveKitService \<Rightarrow> LiveKitService" where
  "do_op (Op_connect fetch rnd now room_connect) s = snd (connect fetch rnd now room_connect s)"
| "do_op (Op_disconnect room_disconnect) s = snd (disconnect room_disconnect s)"
| "do_op (Op_event e) s = on_RoomEvent e s"

section \<open>Chat service (src/services/chatService.ts)\<close>

datatype MessageStatus = pending | sent | delivered | failed

record QueuedMessage =
  message :: ChatMessage
  status :: MessageStatus
  attempts :: nat
  timestamp :: int
  options :: SendMessageOptions

text \<open>
  The constants \<open>CHAT_CONFIG\<close> of config/constants.ts that the service reads. The
  object is not in the sources at hand, so its values are a parameter of every
  operation. \<open>CHAT_MAX_RETRY_ATTEMPTS\<close> and \<open>CHAT_RETRY_BASE_DELAY\<close> stand for
  \<open>CHAT_CONFIG.MAX_RETRY_ATTEMPTS\<close> and \<open>CHAT_CONFIG.RETRY_BASE_DELAY\<close>.
\<close>

record CHAT_CONFIG =
  CHAT_MAX_RETRY_ATTEMPTS :: nat
  MESSAGE_TIMEOUT :: nat
  CHAT_RETRY_BASE_DELAY :: nat
  MAX_RETRY_DELAY :: nat
  FAILED_MESSAGE_CLEANUP_DELAY :: nat
  DELIVERED_MESSAGE_CLEANUP_DELAY :: nat
  DELIVERY_CONFIRMATION_TIMEOUT :: nat
  TYPING_INDICATOR_TIMEOUT :: nat
  MAX_HISTORY_SIZE :: nat

text \<open>The callbacks handed to \<open>setTimeout\<close>, each with the message id and its delay.\<close>

datatype timer =
    RetryTimer string nat
  | FailedCleanupTimer string nat
  | DeliveryTimeoutTimer string nat
  | DeliveredCleanupTimer string nat

text \<open>
  The service object. \<open>messageQueue\<close> is a JavaScript \<open>Map\<close>: an association list in
  insertion order with one entry for each key. Besides the fields of the class the
  record keeps the effects: the timers set and not yet fired, the messages handed to
  \<open>livekitService.sendChatMessage\<close> in order, and the calls of each handler of the
  subscribers in order.
\<close>

record ChatService =
  messageQueue :: "(string \<times> QueuedMessage) list"
  messageHistory :: "ChatMessage list"
  isConnected :: bool
  currentUserId :: "string option"
  isTyping :: bool
  typingTimer :: "nat option"
  timers :: "timer list"
  sendChatMessage_calls :: "ChatMessage list"
  onMessageReceived_calls :: "ChatMessage list"
  onMessageSent_calls :: "ChatMessage list"
  onMessageDelivered_calls :: "string list"
  onMessageFailed_calls :: "string list"
  onTypingIndicator_calls :: "(json option \<times> json option) list"
  onChatConnectionStateChanged_calls :: "bool list"

definition initial_ChatService :: ChatService where
  "initial_ChatService =
     \<lparr>messageQueue = [], messageHistory = [], isConnected = False, currentUserId = None,
      isTyping = False, typingTimer = None, timers = [], sendChatMessage_calls = [],
      onMessageReceived_calls = [], onMessageSent_calls = [], onMessageDelivered_calls = [],
      onMessageFailed_calls = [], onTypingIndicator_calls = [],
      onChatConnectionStateChanged_calls = []\<rparr>"

definition initialize :: "string \<Rightarrow> ChatService \<Rightarrow> ChatService" where
  "initialize userId s = s\<lparr>currentUserId := Some userId\<rparr>"

subsection \<open>The queue as a Map\<close>

definition Map_has :: "string \<Rightarrow> (string \<times> 'v) list \<Rightarrow> bool" where
  "Map_has k m = (k \<in> fst ` set m)"

definition Map_set :: "string \<Rightarrow> 'v \<Rightarrow> (string \<times> 'v) list \<Rightarrow> (string \<times> 'v) list" where
  "Map_set k v m =
     (if Map_has k m then map (\<lambda>kv. if fst kv = k then (k, v) else kv) m else m @ [(k, v)])"

definition Map_delete :: "string \<Rightarrow> (string \<times> 'v) list \<Rightarrow> (string \<times> 'v) list" where
  "Map_delete k m = filter (\<lambda>kv. fst kv \<noteq> k) m"

text \<open>
  The queue processor changes a queued message in place. The object it holds is the
  one the map holds under the message's id, so the change is written to that entry.
\<close>

definition store :: "QueuedMessage \<Rightarrow> ChatService \<Rightarrow> ChatService" where
  "store qm s =
     s\<lparr>messageQueue :=
         map (\<lambda>kv. if fst kv = msg_id (message qm) then (fst kv, qm) else kv) (messageQueue s)\<rparr>"

subsection \<open>Strings\<close>

text \<open>
  \<open>String.prototype.trim\<close> removes white space and line terminators at both ends. A
  character of the model is a code unit below U+0100; the white space and line
  terminators among these are U+0009 to U+000D, U+0020 and U+00A0.
\<close>

definition is_space :: "char \<Rightarrow> bool" where
  "is_space c = (c \<in> {CHR 0x09, CHR 0x0A, CHR 0x0B, CHR 0x0C, CHR 0x0D, CHR 0x20, CHR 0xA0})"

definition trim :: "string \<Rightarrow> string" where
  "trim t = rev (dropWhile is_space (rev (dropWhile is_space t)))"

text \<open>\<open>this.currentUserId || 'unknown'\<close>: \<open>null\<close> and the empty string give the default.\<close>

definition userId_or_unknown :: "ChatService \<Rightarrow> string" where
  "userId_or_unknown s =
     (case currentUserId s of None \<Rightarrow> ''unknown'' | Some u \<Rightarrow> if u = [] then ''unknown'' else u)"

subsection \<open>History\<close>

definition addToHistory :: "CHAT_CONFIG \<Rightarrow> ChatMessage \<Rightarrow> ChatService \<Rightarrow> ChatService" where
  "addToHistory cfg m s =
     (if \<exists>x \<in> set (messageHistory s). msg_id x = msg_id m then s
      else
        let h = messageHistory s @ [m]
        in if length h > MAX_HISTORY_SIZE cfg
           then s\<lparr>messageHistory := drop (length h - MAX_HISTORY_SIZE cfg) h\<rparr>
           else s\<lparr>messageHistory := h\<rparr>)"

subsection \<open>Sending\<close>

text \<open>
  \<open>sendQueuedMessage\<close>. \<open>send m t\<close> says how the race between
  \<open>livekitService.sendChatMessage(m)\<close> and the timeout of \<open>t\<close> milliseconds ends:
  \<open>True\<close> when the send resolves first, \<open>False\<close> when it rejects or the timeout wins.
  The timeout is \<open>options.timeout || CHAT_CONFIG.MESSAGE_TIMEOUT\<close>. The first component
  of the result says whether the function raised.
\<close>

definition timeout_or_default :: "CHAT_CONFIG \<Rightarrow> SendMessageOptions \<Rightarrow> nat" where
  "timeout_or_default cfg opts =
     (case timeout opts of
        None \<Rightarrow> MESSAGE_TIMEOUT cfg
      | Some t \<Rightarrow> if t = 0 then MESSAGE_TIMEOUT cfg else t)"

definition sendQueuedMessage ::
  "CHAT_CONFIG \<Rightarrow> (ChatMessage \<Rightarrow> nat \<Rightarrow> bool) \<Rightarrow> QueuedMessage \<Rightarrow> ChatService \<Rightarrow> bool \<times> ChatService" where
  "sendQueuedMessage cfg send queuedMessage s =
     (let m = message queuedMessage;
          maxAttempts = CHAT_MAX_RETRY_ATTEMPTS cfg;
          tmo = timeout_or_default cfg (options queuedMessage);
          qm1 = queuedMessage\<lparr>attempts := attempts queuedMessage + 1\<rparr>;
          s1 = (store qm1 s)\<lparr>sendChatMessage_calls := sendChatMessage_calls s @ [m]\<rparr>
      in if send m tmo then
           let s2 = store (qm1\<lparr>status := sent\<rparr>) s1;
               s3 = addToHistory cfg m s2;
               s4 = s3\<lparr>onMessageSent_calls := onMessageSent_calls s3 @ [m]\<rparr>;
               s5 = s4\<lparr>timers := timers s4 @ [DeliveryTimeoutTimer (msg_id m) (DELIVERY_CONFIRMATION_TIMEOUT cfg)]\<rparr>
           in (False, s5)
         else if attempts qm1 \<ge> maxAttempts then
           let s2 = store (qm1\<lparr>status := failed\<rparr>) s1;
               s3 = s2\<lparr>onMessageFailed_calls := onMessageFailed_calls s2 @ [msg_id m]\<rparr>;
               s4 = s3\<lparr>timers := timers s3 @ [FailedCleanupTimer (msg_id m) (FAILED_MESSAGE_CLEANUP_DELAY cfg)]\<rparr>
           in (True, s4)
         else
           let s2 = store (qm1\<lparr>status := failed\<rparr>) s1;
               retryDelay = min (CHAT_RETRY_BASE_DELAY cfg * 2 ^ (attempts qm1 - 1)) (MAX_RETRY_DELAY cfg);
               s3 = s2\<lparr>timers := timers s2 @ [RetryTimer (msg_id m) retryDelay]\<rparr>
           in (True, s3))"

text \<open>
  \<open>processMessageQueue\<close>: one pass over the pending and failed messages, oldest
  first (\<open>Array.prototype.sort\<close> is stable, as \<open>sort_key\<close> is). What a send raises is
  caught and logged. The pass is taken as one step: nothing else runs between its sends.
\<close>

definition pendingMessages :: "ChatService \<Rightarrow> QueuedMessage list" where
  "pendingMessages s =
     sort_key timestamp
       (filter (\<lambda>qm. status qm = pending \<or> status qm = failed) (map snd (messageQueue s)))"

definition processMessageQueue ::
  "CHAT_CONFIG \<Rightarrow> (ChatMessage \<Rightarrow> nat \<Rightarrow> bool) \<Rightarrow> ChatService \<Rightarrow> ChatService" where
  "processMessageQueue cfg send s =
     (if \<not> isConnected s then s
      else fold (\<lambda>qm st. snd (sendQueuedMessage cfg send qm st)) (pendingMessages s) s)"

text \<open>
  \<open>sendMessage\<close>, with the identifier \<open>uuidv4()\<close> returns and the two readings of the
  clock. The result is the value the promise resolves with and the state at that moment:
  the promise resolves after \<open>await this.processMessageQueue()\<close>.
\<close>

definition sendMessage ::
  "CHAT_CONFIG \<Rightarrow> (ChatMessage \<Rightarrow> nat \<Rightarrow> bool) \<Rightarrow> string \<Rightarrow> int \<Rightarrow> int \<Rightarrow> string \<Rightarrow> SendMessageOptions
     \<Rightarrow> ChatService \<Rightarrow> string \<times> ChatService" where
  "sendMessage cfg send messageId now1 now2 txt opts s =
     (let m = \<lparr>msg_id = messageId, senderId = userId_or_unknown s, senderName = None,
               msg_text = trim txt, ts = now1\<rparr>;
          queuedMessage = \<lparr>message = m, status = pending, attempts = 0, timestamp = now2,
                           options = opts\<rparr>;
          s1 = s\<lparr>messageQueue := Map_set messageId queuedMessage (messageQueue s)\<rparr>
      in (messageId, processMessageQueue cfg send s1))"

subsection \<open>Timers\<close>

text \<open>What each timer does when it fires; the fired timer leaves the list.\<close>

fun fire :: "CHAT_CONFIG \<Rightarrow> (ChatMessage \<Rightarrow> nat \<Rightarrow> bool) \<Rightarrow> timer \<Rightarrow> ChatService \<Rightarrow> ChatService" where
  "fire cfg send (RetryTimer mid d) s =
     (let s1 = s\<lparr>timers := remove1 (RetryTimer mid d) (timers s)\<rparr>
      in if Map_has mid (messageQueue s1) then processMessageQueue cfg send s1 else s1)"
| "fire cfg send (FailedCleanupTimer mid d) s =
     s\<lparr>timers := remove1 (FailedCleanupTimer mid d) (timers s),
       messageQueue := Map_delete mid (messageQueue s)\<rparr>"
| "fire cfg send (DeliveryTimeoutTimer mid d) s =
     (let s1 = s\<lparr>timers := remove1 (DeliveryTimeoutTimer mid d) (timers s)\<rparr>
      in case map_of (messageQueue s1) mid of
           None \<Rightarrow> s1
         | Some qm \<Rightarrow>
             if status qm = sent then
               let s2 = store (qm\<lparr>status := delivered\<rparr>) s1;
                   s3 = s2\<lparr>onMessageDelivered_calls := onMessageDelivered_calls s2 @ [mid]\<rparr>
               in s3\<lparr>timers := timers s3 @ [DeliveredCleanupTimer mid (DELIVERED_MESSAGE_CLEANUP_DELAY cfg)]\<rparr>
             else s1)"
| "fire cfg send (DeliveredCleanupTimer mid d) s =
     s\<lparr>timers := remove1 (DeliveredCleanupTimer mid d) (timers s),
       messageQueue := Map_delete mid (messageQueue s)\<rparr>"

subsection \<open>Control messages\<close>

text \<open>
  The objects \<open>sendDeliveryReceipt\<close> and \<open>sendTypingIndicator\<close> build (the types
  \<open>DeliveryReceipt\<close> and \<open>TypingIndicator\<close>).
\<close>

definition DeliveryReceipt :: "string \<Rightarrow> int \<Rightarrow> json" where
  "DeliveryReceipt messageId now =
     JObj [(''type'', JStr ''delivery_receipt''), (''messageId'', JStr messageId),
           (''timestamp'', JNum now)]"

definition TypingIndicator :: "string \<Rightarrow> bool \<Rightarrow> int \<Rightarrow> json" where
  "TypingIndicator sender b now =
     JObj [(''type'', JStr ''typing_indicator''), (''senderId'', JStr sender),
           (''isTyping'', JBool b), (''timestamp'', JNum now)]"

text \<open>
  \<open>sendDeliveryReceipt\<close>, with the identifier \<open>uuidv4()\<close> returns and the two readings
  of the clock. Whatever the send raises is caught and logged.
\<close>

definition sendDeliveryReceipt :: "string \<Rightarrow> int \<Rightarrow> int \<Rightarrow> string \<Rightarrow> ChatService \<Rightarrow> ChatService" where
  "sendDeliveryReceipt uuid now1 now2 messageId s =
     (let receipt = DeliveryReceipt messageId now1
      in s\<lparr>sendChatMessage_calls := sendChatMessage_calls s @
             [\<lparr>msg_id = uuid, senderId = userId_or_unknown s, senderName = None,
               msg_text = stringify receipt, ts = now2\<rparr>]\<rparr>)"

text \<open>
  \<open>sendTypingIndicator\<close>; \<open>published\<close> says whether
  \<open>livekitService.sendChatMessage\<close> resolved.
\<close>

definition sendTypingIndicator ::
  "CHAT_CONFIG \<Rightarrow> bool \<Rightarrow> string \<Rightarrow> int \<Rightarrow> int \<Rightarrow> bool \<Rightarrow> ChatService \<Rightarrow> ChatService" where
  "sendTypingIndicator cfg published uuid now1 now2 b s =
     (if isTyping s = b then s
      else
        let s1 = s\<lparr>isTyping := b\<rparr>;
            indicator = TypingIndicator (userId_or_unknown s1) b now1;
            s2 = s1\<lparr>sendChatMessage_calls := sendChatMessage_calls s1 @
                   [\<lparr>msg_id = uuid, senderId = userId_or_unknown s1, senderName = None,
                     msg_text = stringify indicator, ts = now2\<rparr>]\<rparr>
        in if published \<and> b then s2\<lparr>typingTimer := Some (TYPING_INDICATOR_TIMEOUT cfg)\<rparr> else s2)"

subsection \<open>Receiving\<close>

definition handleDeliveryReceipt :: "CHAT_CONFIG \<Rightarrow> json \<Rightarrow> ChatService \<Rightarrow> ChatService" where
  "handleDeliveryReceipt cfg receipt s =
     (case get_prop receipt ''messageId'' of
        Some (JStr mid) \<Rightarrow>
          (case map_of (messageQueue s) mid of
             None \<Rightarrow> s
           | Some qm \<Rightarrow>
               if status qm = sent then
                 let s1 = store (qm\<lparr>status := delivered\<rparr>) s;
                     s2 = s1\<lparr>onMessageDelivered_calls := onMessageDelivered_calls s1 @ [mid]\<rparr>
                 in s2\<lparr>timers := timers s2 @ [DeliveredCleanupTimer mid (DELIVERED_MESSAGE_CLEANUP_DELAY cfg)]\<rparr>
               else s)
      | _ \<Rightarrow> s)"

text \<open>\<open>indicator.senderId !== this.currentUserId\<close>, on a parsed value and a string or \<open>null\<close>.\<close>

definition differs_from_currentUserId :: "json option \<Rightarrow> ChatService \<Rightarrow> bool" where
  "differs_from_currentUserId v s =
     (case (v, currentUserId s) of
        (Some (JStr u), Some c) \<Rightarrow> u \<noteq> c
      | (Some JNull, None) \<Rightarrow> False
      | _ \<Rightarrow> True)"

definition handleTypingIndicator :: "json \<Rightarrow> ChatService \<Rightarrow> ChatService" where
  "handleTypingIndicator indicator s =
     (if differs_from_currentUserId (get_prop indicator ''senderId'') s
      then s\<lparr>onTypingIndicator_calls := onTypingIndicator_calls s @
               [(get_prop indicator ''senderId'', get_prop indicator ''isTyping'')]\<rparr>
      else s)"

definition handleSystemMessage :: "CHAT_CONFIG \<Rightarrow> json \<Rightarrow> ChatService \<Rightarrow> ChatService" where
  "handleSystemMessage cfg systemMessage s =
     (if get_prop systemMessage ''type'' = Some (JStr ''delivery_receipt'')
      then handleDeliveryReceipt cfg systemMessage s
      else if get_prop systemMessage ''type'' = Some (JStr ''typing_indicator'')
      then handleTypingIndicator systemMessage s
      else s)"

text \<open>
  \<open>isValidChatMessage\<close>. An array has \<open>typeof\<close> \<open>'object'\<close> and no \<open>id\<close>; \<open>null\<close>
  never reaches the test (reading its \<open>type\<close> raises before).
\<close>

definition isValidChatMessage :: "json \<Rightarrow> bool" where
  "isValidChatMessage v =
     (case v of
        JObj kvs \<Rightarrow>
          (case (get_prop v ''id'', get_prop v ''senderId'', get_prop v ''text'', get_prop v ''ts'') of
             (Some (JStr i), Some (JStr sd), Some (JStr t), Some (JNum n)) \<Rightarrow>
               length i > 0 \<and> length sd > 0 \<and> length t > 0 \<and> n > 0
           | _ \<Rightarrow> False)
      | _ \<Rightarrow> False)"

text \<open>The parsed object read as a \<open>ChatMessage\<close> (the cast \<open>parsed as ChatMessage\<close>).\<close>

definition as_ChatMessage :: "json \<Rightarrow> ChatMessage" where
  "as_ChatMessage v =
     \<lparr>msg_id = (case get_prop v ''id'' of Some (JStr x) \<Rightarrow> x | _ \<Rightarrow> []),
      senderId = (case get_prop v ''senderId'' of Some (JStr x) \<Rightarrow> x | _ \<Rightarrow> []),
      senderName = (case get_prop v ''senderName'' of Some (JStr x) \<Rightarrow> Some x | _ \<Rightarrow> None),
      msg_text = (case get_prop v ''text'' of Some (JStr x) \<Rightarrow> x | _ \<Rightarrow> []),
      ts = (case get_prop v ''ts'' of Some (JNum n) \<Rightarrow> n | _ \<Rightarrow> 0)\<rparr>"

text \<open>
  \<open>handleIncomingData\<close> on the result of decoding and parsing the payload (\<open>None\<close>:
  \<open>JSON.parse\<close> raised). The identifier and the clock readings are those of the
  delivery receipt. Everything raised inside is caught and logged.
\<close>

definition handleIncomingData ::
  "CHAT_CONFIG \<Rightarrow> string \<Rightarrow> int \<Rightarrow> int \<Rightarrow> json option \<Rightarrow> ChatService \<Rightarrow> ChatService" where
  "handleIncomingData cfg uuid now1 now2 parsed s =
     (case parsed of
        None \<Rightarrow> s
      | Some JNull \<Rightarrow> s
      | Some p \<Rightarrow>
          if truthy (get_prop p ''type'') then handleSystemMessage cfg p s
          else if \<not> isValidChatMessage p then s
          else
            let m = as_ChatMessage p;
                s1 = (if Some (senderId m) \<noteq> currentUserId s
                      then sendDeliveryReceipt uuid now1 now2 (msg_id m) s else s);
                s2 = addToHistory cfg m s1
            in s2\<lparr>onMessageReceived_calls := onMessageReceived_calls s2 @ [m]\<rparr>)"

subsection \<open>Connection state\<close>

text \<open>
  The handler \<open>setupLiveKitIntegration\<close> registers with the connection service for
  \<open>onConnectionStateChanged\<close>. The connection service keeps one handler for each
  event and \<open>setEventHandlers\<close> puts the handlers it is given in the place of the
  earlier ones, so the function below is what a change of the connection state does to
  the chat service while this handler is the registered one.
\<close>

definition onConnectionStateChanged ::
  "CHAT_CONFIG \<Rightarrow> (ChatMessage \<Rightarrow> nat \<Rightarrow> bool) \<Rightarrow> ConnectionState \<Rightarrow> ChatService \<Rightarrow> ChatService" where
  "onConnectionStateChanged cfg send state s =
     (let wasConnected = isConnected s;
          s1 = s\<lparr>isConnected := (state = Connected)\<rparr>;
          s2 = (if isConnected s1 \<and> \<not> wasConnected then processMessageQueue cfg send s1 else s1)
      in s2\<lparr>onChatConnectionStateChanged_calls :=
               onChatConnectionStateChanged_calls s2 @ [isConnected s2]\<rparr>)"

section \<open>The chat service with its sends in flight\<close>

text \<open>
  \<open>sendMessage\<close>, \<open>processMessageQueue\<close> and \<open>sendQueuedMessage\<close> are \<open>async\<close>: a call
  runs to its first \<open>await\<close> and the rest runs when the awaited promise settles. The one
  promise that waits for the outside is the race in \<open>sendQueuedMessage\<close> between the
  transport's send and the timeout; until it settles, timers, incoming data, changes of
  the connection state and further calls run in between. The functions of the sections
  above take a pass of the processor as one step, which is the case where every send
  settles before anything else happens. This section follows the code step by step.

  A queued message is an object that the \<open>Map\<close> and the passes in flight share, and a
  pass changes it in place. \<open>objects\<close> is the store of these objects, the address of an
  object being its index, and \<open>queueMap\<close> is the \<open>Map\<close>, from the id to the address, in
  insertion order. \<open>service\<close> holds the other fields of the class and the effects; its
  own \<open>messageQueue\<close> is not used. A pass in flight is the snapshot it iterates over:
  the object whose send it awaits (\<open>None\<close> once the pass has ended), the objects still
  to come, and the call of \<open>sendMessage\<close> that awaits the pass, if one does. A call of
  \<open>sendMessage\<close> is named by the id it will return and the address of the object it
  queued; \<open>resolved\<close> lists the calls whose promise has resolved.
\<close>

record pass =
  returns_to :: "(string \<times> nat) option"
  awaited :: "nat option"
  remaining :: "nat list"

record RunningChatService =
  service :: ChatService
  objects :: "QueuedMessage list"
  queueMap :: "(string \<times> nat) list"
  passes :: "pass list"
  resolved :: "(string \<times> nat) list"

definition initial_RunningChatService :: RunningChatService where
  "initial_RunningChatService =
     \<lparr>service = initial_ChatService, objects = [], queueMap = [], passes = [], resolved = []\<rparr>"

text \<open>A write to a field of the object at an address, and a change of the other fields.\<close>

definition on_object :: "nat \<Rightarrow> (QueuedMessage \<Rightarrow> QueuedMessage) \<Rightarrow> RunningChatService \<Rightarrow> RunningChatService" where
  "on_object a f s = s\<lparr>objects := (objects s)[a := f (objects s ! a)]\<rparr>"

definition on_service :: "(ChatService \<Rightarrow> ChatService) \<Rightarrow> RunningChatService \<Rightarrow> RunningChatService" where
  "on_service f s = s\<lparr>service := f (service s)\<rparr>"

text \<open>
  \<open>sendQueuedMessage\<close> up to its \<open>await\<close>: the attempt is counted and the message is
  handed to \<open>livekitService.sendChatMessage\<close>.
\<close>

definition sendQueuedMessage_call :: "nat \<Rightarrow> RunningChatService \<Rightarrow> RunningChatService" where
  "sendQueuedMessage_call a s =
     (let m = message (objects s ! a);
          s1 = on_object a (\<lambda>q. q\<lparr>attempts := attempts q + 1\<rparr>) s
      in on_service (\<lambda>v. v\<lparr>sendChatMessage_calls := sendChatMessage_calls v @ [m]\<rparr>) s1)"

text \<open>
  \<open>sendQueuedMessage\<close> after its \<open>await\<close>; \<open>sendOk\<close> says that the send resolved before the
  timeout. The number of attempts is read from the object at this moment.
\<close>

definition sendQueuedMessage_resume ::
  "CHAT_CONFIG \<Rightarrow> bool \<Rightarrow> nat \<Rightarrow> RunningChatService \<Rightarrow> RunningChatService" where
  "sendQueuedMessage_resume cfg sendOk a s =
     (let m = message (objects s ! a);
          maxAttempts = CHAT_MAX_RETRY_ATTEMPTS cfg
      in if sendOk then
           let s1 = on_object a (\<lambda>q. q\<lparr>status := sent\<rparr>) s
           in on_service
                (\<lambda>v. let v1 = addToHistory cfg m v;
                          v2 = v1\<lparr>onMessageSent_calls := onMessageSent_calls v1 @ [m]\<rparr>
                      in v2\<lparr>timers := timers v2 @
                              [DeliveryTimeoutTimer (msg_id m) (DELIVERY_CONFIRMATION_TIMEOUT cfg)]\<rparr>) s1
         else if attempts (objects s ! a) \<ge> maxAttempts then
           let s1 = on_object a (\<lambda>q. q\<lparr>status := failed\<rparr>) s
           in on_service
                (\<lambda>v. let v1 = v\<lparr>onMessageFailed_calls := onMessageFailed_calls v @ [msg_id m]\<rparr>
                      in v1\<lparr>timers := timers v1 @
                              [FailedCleanupTimer (msg_id m) (FAILED_MESSAGE_CLEANUP_DELAY cfg)]\<rparr>) s1
         else
           let s1 = on_object a (\<lambda>q. q\<lparr>status := failed\<rparr>) s;
               retryDelay = min (CHAT_RETRY_BASE_DELAY cfg * 2 ^ (attempts (objects s ! a) - 1))
                              (MAX_RETRY_DELAY cfg)
           in on_service (\<lambda>v. v\<lparr>timers := timers v @ [RetryTimer (msg_id m) retryDelay]\<rparr>) s1)"

text \<open>The snapshot of a pass: the pending and failed objects of the \<open>Map\<close>, oldest first.\<close>

definition pendingObjects :: "RunningChatService \<Rightarrow> nat list" where
  "pendingObjects s =
     sort_key (\<lambda>a. timestamp (objects s ! a))
       (filter (\<lambda>a. status (objects s ! a) = pending \<or> status (objects s ! a) = failed)
          (map snd (queueMap s)))"

text \<open>
  The promise of a pass resolves; the call of \<open>sendMessage\<close> that awaits it, if there
  is one, returns its id. Nothing from outside is waited for between the two.
\<close>

definition return_to :: "(string \<times> nat) option \<Rightarrow> RunningChatService \<Rightarrow> RunningChatService" where
  "return_to r s = (case r of None \<Rightarrow> s | Some c \<Rightarrow> s\<lparr>resolved := resolved s @ [c]\<rparr>)"

text \<open>
  \<open>processMessageQueue\<close> up to its first \<open>await\<close>: it ends at once when the service is
  not connected or the snapshot is empty, otherwise the first send is started and the
  pass is in flight.
\<close>

definition processMessageQueue_call ::
  "(string \<times> nat) option \<Rightarrow> RunningChatService \<Rightarrow> RunningChatService" where
  "processMessageQueue_call r s =
     (if \<not> isConnected (service s) then return_to r s
      else case pendingObjects s of
             [] \<Rightarrow> return_to r s
           | a # rest \<Rightarrow>
               (sendQueuedMessage_call a s)
                 \<lparr>passes := passes s @ [\<lparr>returns_to = r, awaited = Some a, remaining = rest\<rparr>]\<rparr>)"

text \<open>
  The send awaited by pass \<open>i\<close> settles: \<open>sendQueuedMessage\<close> runs to its end (what it
  raises is caught by the loop), then the loop starts the send of the next object of
  the snapshot, or the pass ends.
\<close>

definition processMessageQueue_resume ::
  "CHAT_CONFIG \<Rightarrow> nat \<Rightarrow> bool \<Rightarrow> RunningChatService \<Rightarrow> RunningChatService" where
  "processMessageQueue_resume cfg i sendOk s =
     (if i \<ge> length (passes s) then s
      else
        let p = passes s ! i
        in case awaited p of
             None \<Rightarrow> s
           | Some a \<Rightarrow>
               let s1 = sendQueuedMessage_resume cfg sendOk a s
               in (case remaining p of
                     [] \<Rightarrow> return_to (returns_to p) (s1\<lparr>passes := (passes s)[i := p\<lparr>awaited := None\<rparr>]\<rparr>)
                   | b # rest \<Rightarrow>
                       (sendQueuedMessage_call b s1)
                         \<lparr>passes := (passes s)[i := p\<lparr>awaited := Some b, remaining := rest\<rparr>]\<rparr>))"

text \<open>
  \<open>sendMessage\<close> up to its \<open>await\<close>, with the identifier \<open>uuidv4()\<close> returns and the two
  readings of the clock: \<open>enqueue\<close> is the part before the call of the processor. The
  new object gets the next free address.
\<close>

definition enqueue ::
  "string \<Rightarrow> int \<Rightarrow> int \<Rightarrow> string \<Rightarrow> SendMessageOptions \<Rightarrow> RunningChatService \<Rightarrow> RunningChatService" where
  "enqueue messageId now1 now2 txt opts s =
     (let m = \<lparr>msg_id = messageId, senderId = userId_or_unknown (service s), senderName = None,
               msg_text = trim txt, ts = now1\<rparr>;
          queuedMessage = \<lparr>message = m, status = pending, attempts = 0, timestamp = now2,
                           options = opts\<rparr>
      in s\<lparr>objects := objects s @ [queuedMessage],
           queueMap := Map_set messageId (length (objects s)) (queueMap s)\<rparr>)"

definition sendMessage_call ::
  "string \<Rightarrow> int \<Rightarrow> int \<Rightarrow> string \<Rightarrow> SendMessageOptions \<Rightarrow> RunningChatService \<Rightarrow> RunningChatService" where
  "sendMessage_call messageId now1 now2 txt opts s =
     processMessageQueue_call (Some (messageId, length (objects s)))
       (enqueue messageId now1 now2 txt opts s)"

text \<open>The timers, the receipts and the handlers, on the store of objects.\<close>

definition mark_delivered :: "CHAT_CONFIG \<Rightarrow> string \<Rightarrow> nat \<Rightarrow> RunningChatService \<Rightarrow> RunningChatService" where
  "mark_delivered cfg mid a s =
     (if status (objects s ! a) = sent then
        on_service
          (\<lambda>v. let v1 = v\<lparr>onMessageDelivered_calls := onMessageDelivered_calls v @ [mid]\<rparr>
                in v1\<lparr>timers := timers v1 @
                        [DeliveredCleanupTimer mid (DELIVERED_MESSAGE_CLEANUP_DELAY cfg)]\<rparr>)
          (on_object a (\<lambda>q. q\<lparr>status := delivered\<rparr>) s)
      else s)"

fun fire' :: "CHAT_CONFIG \<Rightarrow> timer \<Rightarrow> RunningChatService \<Rightarrow> RunningChatService" where
  "fire' cfg (RetryTimer mid d) s =
     (let s1 = on_service (\<lambda>v. v\<lparr>timers := remove1 (RetryTimer mid d) (timers v)\<rparr>) s
      in if Map_has mid (queueMap s1) then processMessageQueue_call None s1 else s1)"
| "fire' cfg (FailedCleanupTimer mid d) s =
     (on_service (\<lambda>v. v\<lparr>timers := remove1 (FailedCleanupTimer mid d) (timers v)\<rparr>) s)
       \<lparr>queueMap := Map_delete mid (queueMap s)\<rparr>"
| "fire' cfg (DeliveryTimeoutTimer mid d) s =
     (let s1 = on_service (\<lambda>v. v\<lparr>timers := remove1 (DeliveryTimeoutTimer mid d) (timers v)\<rparr>) s
      in case map_of (queueMap s1) mid of
           None \<Rightarrow> s1
         | Some a \<Rightarrow> mark_delivered cfg mid a s1)"
| "fire' cfg (DeliveredCleanupTimer mid d) s =
     (on_service (\<lambda>v. v\<lparr>timers := remove1 (DeliveredCleanupTimer mid d) (timers v)\<rparr>) s)
       \<lparr>queueMap := Map_delete mid (queueMap s)\<rparr>"

definition handleDeliveryReceipt' :: "CHAT_CONFIG \<Rightarrow> json \<Rightarrow> RunningChatService \<Rightarrow> RunningChatService" where
  "handleDeliveryReceipt' cfg receipt s =
     (case get_prop receipt ''messageId'' of
        Some (JStr mid) \<Rightarrow>
          (case map_of (queueMap s) mid of
             None \<Rightarrow> s
           | Some a \<Rightarrow> mark_delivered cfg mid a s)
      | _ \<Rightarrow> s)"

definition handleSystemMessage' :: "CHAT_CONFIG \<Rightarrow> json \<Rightarrow> RunningChatService \<Rightarrow> RunningChatService" where
  "handleSystemMessage' cfg systemMessage s =
     (if get_prop systemMessage ''type'' = Some (JStr ''delivery_receipt'')
      then handleDeliveryReceipt' cfg systemMessage s
      else if get_prop systemMessage ''type'' = Some (JStr ''typing_indicator'')
      then on_service (handleTypingIndicator systemMessage) s
      else s)"

definition handleIncomingData' ::
  "CHAT_CONFIG \<Rightarrow> string \<Rightarrow> int \<Rightarrow> int \<Rightarrow> json option \<Rightarrow> RunningChatService \<Rightarrow> RunningChatService" where
  "handleIncomingData' cfg uuid now1 now2 parsed s =
     (case parsed of
        None \<Rightarrow> s
      | Some JNull \<Rightarrow> s
      | Some p \<Rightarrow>
          if truthy (get_prop p ''type'') then handleSystemMessage' cfg p s
          else if \<not> isValidChatMessage p then s
          else
            let m = as_ChatMessage p
            in on_service
                 (\<lambda>v. let v1 = (if Some (senderId m) \<noteq> currentUserId v
                                 then sendDeliveryReceipt uuid now1 now2 (msg_id m) v else v);
                           v2 = addToHistory cfg m v1
                       in v2\<lparr>onMessageReceived_calls := onMessageReceived_calls v2 @ [m]\<rparr>) s)"

definition onConnectionStateChanged' :: "ConnectionState \<Rightarrow> RunningChatService \<Rightarrow> RunningChatService" where
  "onConnectionStateChanged' state s =
     (let wasConnected = isConnected (service s);
          s1 = on_service (\<lambda>v. v\<lparr>isConnected := (state = Connected)\<rparr>) s;
          s2 = (if isConnected (service s1) \<and> \<not> wasConnected
                then processMessageQueue_call None s1 else s1)
      in on_service
           (\<lambda>v. v\<lparr>onChatConnectionStateChanged_calls :=
                     onChatConnectionStateChanged_calls v @ [isConnected v]\<rparr>) s2)"

text \<open>
  \<open>clearHistory\<close>, \<open>clearQueue\<close> and \<open>cleanup\<close>. \<open>cleanup\<close> clears the timer of the
  typing indicator; the timers of the queue are not kept by the service and stay set.
\<close>

definition clearHistory :: "RunningChatService \<Rightarrow> RunningChatService" where
  "clearHistory s = on_service (\<lambda>v. v\<lparr>messageHistory := []\<rparr>) s"

definition clearQueue :: "RunningChatService \<Rightarrow> RunningChatService" where
  "clearQueue s = s\<lparr>queueMap := []\<rparr>"

definition cleanup :: "RunningChatService \<Rightarrow> RunningChatService" where
  "cleanup s =
     on_service
       (\<lambda>v. v\<lparr>typingTimer := None, isConnected := False, currentUserId := None, isTyping := False\<rparr>)
       (clearQueue s)"

text \<open>
  What can happen to the service: a call of one of its methods, a timer that fires,
  data or a change of the connection state from the connection service, and the
  settling of the send a pass awaits. Each runs to its end, or to its next \<open>await\<close>,
  before the next one starts.
\<close>

datatype event =
    Ev_sendMessage string int int string SendMessageOptions
  | Ev_settled nat bool
  | Ev_timer timer
  | Ev_connectionState ConnectionState
  | Ev_data string int int "json option"
  | Ev_sendTypingIndicator bool string int int bool
  | Ev_initialize string
  | Ev_clearHistory
  | Ev_clearQueue
  | Ev_cleanup

fun step :: "CHAT_CONFIG \<Rightarrow> event \<Rightarrow> RunningChatService \<Rightarrow> RunningChatService" where
  "step cfg (Ev_sendMessage messageId now1 now2 txt opts) s =
     sendMessage_call messageId now1 now2 txt opts s"
| "step cfg (Ev_settled i sendOk) s = processMessageQueue_resume cfg i sendOk s"
| "step cfg (Ev_timer t) s = fire' cfg t s"
| "step cfg (Ev_connectionState state) s = onConnectionStateChanged' state s"
| "step cfg (Ev_data uuid now1 now2 parsed) s = handleIncomingData' cfg uuid now1 now2 parsed s"
| "step cfg (Ev_sendTypingIndicator published uuid now1 now2 b) s =
     on_service (sendTypingIndicator cfg published uuid now1 now2 b) s"
| "step cfg (Ev_initialize userId) s = on_service (initialize userId) s"
| "step cfg Ev_clearHistory s = clearHistory s"
| "step cfg Ev_clearQueue s = clearQueue s"
| "step cfg Ev_cleanup s = cleanup s"

definition run :: "CHAT_CONFIG \<Rightarrow> event list \<Rightarrow> RunningChatService \<Rightarrow> RunningChatService" where
  "run cfg evs s = fold (step cfg) evs s"

section \<open>The services wired together (services/authService.ts)\<close>

text \<open>
  The connection service holds one object of handlers, at most one handler for each
  event. A handler is a closure over the service or the component that gives it; the
  object is modelled as the map from the event to whose closure is held.
  \<open>setEventHandlers\<close> spreads the handlers it is given over the ones it holds,
  \<open>{ ...this.eventHandlers, ...handlers }\<close>: a handler given for an event takes the
  place of the earlier one.
\<close>

datatype LiveKitEvent =
    OnConnectionStateChanged | OnParticipantConnected | OnParticipantDisconnected
  | OnTrackSubscribed | OnTrackUnsubscribed | OnDataReceived | OnAudioStateChanged
  | OnSpeakingChanged | OnActiveSpeakersChanged | OnError

datatype registrant = ChatService_handler | AuthService_handler | ParticipantsList_handler

type_synonym LiveKitEventHandlers = "LiveKitEvent \<rightharpoonup> registrant"

definition setEventHandlers :: "LiveKitEventHandlers \<Rightarrow> LiveKitEventHandlers \<Rightarrow> LiveKitEventHandlers" where
  "setEventHandlers handlers eventHandlers = eventHandlers ++ handlers"

text \<open>
  The three callers of \<open>setEventHandlers\<close>: \<open>ChatService.setupLiveKitIntegration\<close>,
  \<open>AuthService.setupLiveKitEventHandlers\<close> and the effect of the component
  \<open>ParticipantsList\<close>.
\<close>

definition setupLiveKitIntegration :: "LiveKitEventHandlers \<Rightarrow> LiveKitEventHandlers" where
  "setupLiveKitIntegration =
     setEventHandlers
       [OnConnectionStateChanged \<mapsto> ChatService_handler,
        OnDataReceived \<mapsto> ChatService_handler,
        OnError \<mapsto> ChatService_handler]"

definition setupLiveKitEventHandlers :: "LiveKitEventHandlers \<Rightarrow> LiveKitEventHandlers" where
  "setupLiveKitEventHandlers =
     setEventHandlers
       [OnConnectionStateChanged \<mapsto> AuthService_handler,
        OnAudioStateChanged \<mapsto> AuthService_handler,
        OnDataReceived \<mapsto> AuthService_handler,
        OnError \<mapsto> AuthService_handler]"

definition ParticipantsList_effect :: "LiveKitEventHandlers \<Rightarrow> LiveKitEventHandlers" where
  "ParticipantsList_effect =
     setEventHandlers
       [OnParticipantConnected \<mapsto> ParticipantsList_handler,
        OnParticipantDisconnected \<mapsto> ParticipantsList_handler,
        OnAudioStateChanged \<mapsto> ParticipantsList_handler]"

text \<open>
  The session of the auth service, and the service with the calls of its own
  subscribers.
\<close>

record UserSession =
  session_userId :: string
  session_userName :: string
  session_roomName :: string
  joinedAt :: int
  session_connectionState :: ConnectionState
  session_audioState :: AudioState

record AuthService =
  currentSession :: "UserSession option"
  onSessionStateChanged_calls :: "UserSession list"
  onAuthConnectionStateChanged_calls :: "ConnectionState list"
  onAuthError_calls :: "AppError list"

definition initial_AuthService :: AuthService where
  "initial_AuthService =
     \<lparr>currentSession = None, onSessionStateChanged_calls = [],
      onAuthConnectionStateChanged_calls = [], onAuthError_calls = []\<rparr>"

definition notifySessionStateChanged :: "AuthService \<Rightarrow> AuthService" where
  "notifySessionStateChanged s =
     (case currentSession s of
        None \<Rightarrow> s
      | Some session \<Rightarrow> s\<lparr>onSessionStateChanged_calls := onSessionStateChanged_calls s @ [session]\<rparr>)"

text \<open>
  The handler of the auth service for \<open>onConnectionStateChanged\<close>: it writes the state
  to the session and tells its own subscribers. It does nothing to the chat service.
\<close>

definition auth_onConnectionStateChanged :: "ConnectionState \<Rightarrow> AuthService \<Rightarrow> AuthService" where
  "auth_onConnectionStateChanged state s =
     (let s1 = (case currentSession s of
                  None \<Rightarrow> s
                | Some session \<Rightarrow>
                    notifySessionStateChanged
                      (s\<lparr>currentSession := Some (session\<lparr>session_connectionState := state\<rparr>)\<rparr>))
      in s1\<lparr>onAuthConnectionStateChanged_calls := onAuthConnectionStateChanged_calls s1 @ [state]\<rparr>)"

text \<open>
  The application: the three singletons and the handlers the connection service
  holds. The module of the auth service imports the module of the chat service, so the
  chat service is constructed first and registers its handlers, and the auth service is
  constructed after it and registers its own. \<open>chat_service_loaded\<close> is the state after
  the first constructor, \<open>auth_service_loaded\<close> the state after both; the only caller of
  \<open>connect\<close> is \<open>AuthService.startSession\<close>.
\<close>

record App =
  livekitService :: LiveKitService
  eventHandlers :: LiveKitEventHandlers
  chatService :: ChatService
  authService :: AuthService

definition chat_service_loaded :: App where
  "chat_service_loaded =
     \<lparr>livekitService = initial_LiveKitService,
      eventHandlers = setupLiveKitIntegration Map.empty,
      chatService = initial_ChatService,
      authService = initial_AuthService\<rparr>"

definition auth_service_loaded :: App where
  "auth_service_loaded =
     chat_service_loaded\<lparr>eventHandlers := setupLiveKitEventHandlers (eventHandlers chat_service_loaded)\<rparr>"

text \<open>
  \<open>this.eventHandlers.onConnectionStateChanged?.(state)\<close> in
  \<open>updateConnectionState\<close>: the handler held for the event is called. The component
  gives no handler for this event.
\<close>

definition call_onConnectionStateChanged ::
  "CHAT_CONFIG \<Rightarrow> (ChatMessage \<Rightarrow> nat \<Rightarrow> bool) \<Rightarrow> ConnectionState \<Rightarrow> App \<Rightarrow> App" where
  "call_onConnectionStateChanged cfg send state a =
     (case eventHandlers a OnConnectionStateChanged of
        Some ChatService_handler \<Rightarrow>
          a\<lparr>chatService := onConnectionStateChanged cfg send state (chatService a)\<rparr>
      | Some AuthService_handler \<Rightarrow>
          a\<lparr>authService := auth_onConnectionStateChanged state (authService a)\<rparr>
      | _ \<Rightarrow> a)"

text \<open>
  An operation of the connection service inside the application. The handlers do not
  write to the connection service, so calling them for the notifications of the
  operation, in order, after the operation gives the same states as calling each where
  \<open>updateConnectionState\<close> stands. The notifications of the audio state are not
  followed.
\<close>

definition app_livekit ::
  "CHAT_CONFIG \<Rightarrow> (ChatMessage \<Rightarrow> nat \<Rightarrow> bool) \<Rightarrow> LiveKit_op \<Rightarrow> App \<Rightarrow> App" where
  "app_livekit cfg send op a =
     (let before = livekitService a;
          after = do_op op before;
          notified = drop (length (onConnectionStateChanged_calls before))
                       (onConnectionStateChanged_calls after)
      in fold (call_onConnectionStateChanged cfg send) notified (a\<lparr>livekitService := after\<rparr>))"

text \<open>
  The listener for \<open>RoomEvent.DataReceived\<close> calls the handler held for
  \<open>onDataReceived\<close>; the handler of the auth service only writes to the log.
\<close>

definition app_dataReceived ::
  "CHAT_CONFIG \<Rightarrow> string \<Rightarrow> int \<Rightarrow> int \<Rightarrow> json option \<Rightarrow> App \<Rightarrow> App" where
  "app_dataReceived cfg uuid now1 now2 parsed a =
     (case eventHandlers a OnDataReceived of
        Some ChatService_handler \<Rightarrow>
          a\<lparr>chatService := handleIncomingData cfg uuid now1 now2 parsed (chatService a)\<rparr>
      | _ \<Rightarrow> a)"

text \<open>\<open>chatService.sendMessage\<close> and a timer of the chat service inside the application.\<close>

definition app_sendMessage ::
  "CHAT_CONFIG \<Rightarrow> (ChatMessage \<Rightarrow> nat \<Rightarrow> bool) \<Rightarrow> string \<Rightarrow> int \<Rightarrow> int \<Rightarrow> string \<Rightarrow> SendMessageOptions
     \<Rightarrow> App \<Rightarrow> string \<times> App" where
  "app_sendMessage cfg send messageId now1 now2 txt opts a =
     (let r = sendMessage cfg send messageId now1 now2 txt opts (chatService a)
      in (fst r, a\<lparr>chatService := snd r\<rparr>))"

definition app_fire :: "CHAT_CONFIG \<Rightarrow> (ChatMessage \<Rightarrow> nat \<Rightarrow> bool) \<Rightarrow> timer \<Rightarrow> App \<Rightarrow> App" where
  "app_fire cfg send t a = a\<lparr>chatService := fire cfg send t (chatService a)\<rparr>"

text \<open>
  \<open>startSession\<close> with the user, the names and the clock (the defaults of the options
  resolved), the environment of \<open>connect\<close>, and what the call returns or raises. The
  \<open>catch\<close> block clears the session and tells the subscriber for errors.
\<close>

definition startSession_catch :: "thrown \<Rightarrow> App \<Rightarrow> (AppError + UserSession) \<times> App" where
  "startSession_catch e a =
     (Inl (handle e),
      a\<lparr>authService := (authService a)
           \<lparr>currentSession := None,
            onAuthError_calls := onAuthError_calls (authService a) @ [handle e]\<rparr>\<rparr>)"

definition startSession ::
  "CHAT_CONFIG \<Rightarrow> (ChatMessage \<Rightarrow> nat \<Rightarrow> bool) \<Rightarrow> string \<Rightarrow> string \<Rightarrow> string \<Rightarrow> int
     \<Rightarrow> (nat \<Rightarrow> fetch_outcome) \<Rightarrow> (nat \<Rightarrow> real) \<Rightarrow> thrown option \<Rightarrow> App
     \<Rightarrow> (AppError + UserSession) \<times> App" where
  "startSession cfg send userId userName roomName now fetch rnd room_connect a =
     (let session = \<lparr>session_userId = userId, session_userName = userName,
                     session_roomName = roomName, joinedAt = now,
                     session_connectionState = Disconnected,
                     session_audioState =
                       \<lparr>isMuted = True, isPublishing = False, hasPermission = False, audioLevel = 0\<rparr>\<rparr>;
          a1 = a\<lparr>authService := (authService a)\<lparr>currentSession := Some session\<rparr>,
                 chatService := initialize userId (chatService a)\<rparr>;
          a2 = app_livekit cfg send (Op_connect fetch rnd now room_connect) a1
      in case fst (connect fetch rnd now room_connect (livekitService a1)) of
           Inl e \<Rightarrow> startSession_catch (ThrownAppError e) a2
         | Inr u \<Rightarrow>
             (case currentSession (authService a2) of
                None \<Rightarrow>
                  startSession_catch (JsError ''TypeError'' ''Cannot read properties of null'') a2
              | Some session2 \<Rightarrow>
                  let session3 = session2
                        \<lparr>session_connectionState := connectionState (livekitService a2),
                         session_audioState := audioState (livekitService a2)\<rparr>;
                      au = notifySessionStateChanged ((authService a2)\<lparr>currentSession := Some session3\<rparr>)
                  in (Inr session3, a2\<lparr>authService := au\<rparr>)))"

section \<open>Predicates and inputs used in the statements\<close>

text \<open>
  The notifications of the connection state are consistent when no two in a row are
  equal and the last one, if there is one, is the current state.
\<close>

definition notifications_consistent :: "LiveKitService \<Rightarrow> bool" where
  "notifications_consistent s =
     (distinct_adj (onConnectionStateChanged_calls s) \<and>
      (onConnectionStateChanged_calls s = [] \<or>
       last (onConnectionStateChanged_calls s) = connectionState s))"

text \<open>
  From one state of the running service to a later one: no object goes away, the
  message of an object stays, its attempts do not go down, a status other than
  \<open>pending\<close> does not become \<open>pending\<close>, and what was handed to the transport or
  returned stays so.
\<close>

definition grows :: "RunningChatService \<Rightarrow> RunningChatService \<Rightarrow> bool" where
  "grows s s' =
     (length (objects s) \<le> length (objects s') \<and>
      (\<forall>a < length (objects s).
         message (objects s' ! a) = message (objects s ! a) \<and>
         attempts (objects s ! a) \<le> attempts (objects s' ! a) \<and>
         (status (objects s ! a) \<noteq> pending \<longrightarrow> status (objects s' ! a) \<noteq> pending)) \<and>
      set (sendChatMessage_calls (service s)) \<subseteq> set (sendChatMessage_calls (service s')) \<and>
      set (resolved s) \<subseteq> set (resolved s'))"

text \<open>A step that, besides, starts no pass, ends none and returns from no call.\<close>

definition quiet :: "RunningChatService \<Rightarrow> RunningChatService \<Rightarrow> bool" where
  "quiet s s' = (grows s s' \<and> passes s' = passes s \<and> resolved s' = resolved s)"

text \<open>
  The message of the object at an address has been handed to the transport, and its
  send has settled.
\<close>

definition handed_over :: "nat \<Rightarrow> RunningChatService \<Rightarrow> bool" where
  "handed_over a s =
     (1 \<le> attempts (objects s ! a) \<and>
      message (objects s ! a) \<in> set (sendChatMessage_calls (service s)))"

definition send_settled :: "nat \<Rightarrow> RunningChatService \<Rightarrow> bool" where
  "send_settled a s = (handed_over a s \<and> status (objects s ! a) \<noteq> pending)"

text \<open>
  A call of \<open>sendMessage\<close> is accounted for when every pass it awaits has its object
  still to come, or awaits the send of its object, or has seen it settle, and, if the
  call has returned, the send of its object has settled.
\<close>

definition accounted :: "string \<times> nat \<Rightarrow> RunningChatService \<Rightarrow> bool" where
  "accounted c s =
     (snd c < length (objects s) \<and>
      (\<forall>p \<in> set (passes s). returns_to p = Some c \<longrightarrow>
         snd c \<in> set (remaining p) \<or>
         (awaited p = Some (snd c) \<and> handed_over (snd c) s) \<or>
         send_settled (snd c) s) \<and>
      (c \<in> set (resolved s) \<longrightarrow> send_settled (snd c) s))"

text \<open>
  The sends pass \<open>i\<close> has still to see settle: the one it awaits and those of the
  objects to come. The events of a run that settle a send of pass \<open>i\<close>.
\<close>

definition sends_to_come :: "pass \<Rightarrow> nat" where
  "sends_to_come p = (case awaited p of None \<Rightarrow> 0 | Some a \<Rightarrow> Suc (length (remaining p)))"

definition sends_left :: "nat \<Rightarrow> RunningChatService \<Rightarrow> nat" where
  "sends_left i s = (if i < length (passes s) then sends_to_come (passes s ! i) else 0)"

fun settles :: "nat \<Rightarrow> event \<Rightarrow> bool" where
  "settles i (Ev_settled j sendOk) = (j = i)"
| "settles i ev = False"

definition settles_of :: "nat \<Rightarrow> event list \<Rightarrow> nat" where
  "settles_of i evs = length (filter (settles i) evs)"

text \<open>
  The call \<open>c\<close> of \<open>sendMessage\<close> awaits pass \<open>i\<close> and no other pass, and it has
  returned if and only if the pass has ended.
\<close>

definition awaits_pass :: "string \<times> nat \<Rightarrow> nat \<Rightarrow> RunningChatService \<Rightarrow> bool" where
  "awaits_pass c i s =
     (i < length (passes s) \<and> returns_to (passes s ! i) = Some c \<and>
      snd c < length (objects s) \<and>
      (\<forall>j < length (passes s). j \<noteq> i \<longrightarrow> returns_to (passes s ! j) \<noteq> Some c) \<and>
      (c \<in> set (resolved s) \<longleftrightarrow> sends_left i s = 0))"

text \<open>Every call known to the service queued an object of the store.\<close>

definition calls_valid :: "RunningChatService \<Rightarrow> bool" where
  "calls_valid s =
     ((\<forall>p \<in> set (passes s). \<forall>c. returns_to p = Some c \<longrightarrow> snd c < length (objects s)) \<and>
      (\<forall>c \<in> set (resolved s). snd c < length (objects s)))"



subsection \<open>Token service inputs\<close>

definition ex_rnd_zero :: "nat \<Rightarrow> real" where
  "ex_rnd_zero k = 0"

definition ex_fetch_timeout :: "nat \<Rightarrow> fetch_outcome" where
  "ex_fetch_timeout k = Rejected (JsError ''AbortError'' ''The operation was aborted'')"

definition ex_response_500 :: Response where
  "ex_response_500 = \<lparr>resp_status = 500, statusText = ''Internal Server Error'', json_body = None\<rparr>"

definition ex_fetch_500 :: "nat \<Rightarrow> fetch_outcome" where
  "ex_fetch_500 k = Resolved ex_response_500"

definition ex_no_token :: TokenService where
  "ex_no_token = \<lparr>currentToken = None, tokenExpiresAt = None, refreshTimer = None\<rparr>"

definition ex_token_response :: Response where
  "ex_token_response =
     \<lparr>resp_status = 200, statusText = ''OK'',
      json_body = Some \<lparr>token = ''jwt'', url = None, expires_at = Some 3600000\<rparr>\<rparr>"

definition ex_fetch_ok :: "nat \<Rightarrow> fetch_outcome" where
  "ex_fetch_ok k = Resolved ex_token_response"

subsection \<open>Connection service inputs\<close>

text \<open>The service after one successful \<open>connect\<close> at time 0.\<close>

definition ex_connected :: LiveKitService where
  "ex_connected = snd (connect ex_fetch_ok ex_rnd_zero 0 None initial_LiveKitService)"

definition ex_transport_error :: thrown where
  "ex_transport_error = JsError ''Error'' ''could not close the connection''"

subsection \<open>Chat service inputs\<close>

text \<open>
  A configuration with three attempts for each message; the other values are
  arbitrary.
\<close>

definition ex_cfg :: CHAT_CONFIG where
  "ex_cfg = \<lparr>CHAT_MAX_RETRY_ATTEMPTS = 3, MESSAGE_TIMEOUT = 5000, CHAT_RETRY_BASE_DELAY = 1000,
            MAX_RETRY_DELAY = 10000, FAILED_MESSAGE_CLEANUP_DELAY = 30000,
            DELIVERED_MESSAGE_CLEANUP_DELAY = 5000, DELIVERY_CONFIRMATION_TIMEOUT = 3000,
            TYPING_INDICATOR_TIMEOUT = 3000, MAX_HISTORY_SIZE = 100\<rparr>"

definition ex_send_ok :: "ChatMessage \<Rightarrow> nat \<Rightarrow> bool" where
  "ex_send_ok m t = True"

definition ex_send_fail :: "ChatMessage \<Rightarrow> nat \<Rightarrow> bool" where
  "ex_send_fail m t = False"

definition ex_opts :: SendMessageOptions where
  "ex_opts = \<lparr>retry = None, timeout = None\<rparr>"

definition ex_alice :: ChatService where
  "ex_alice = initialize ''alice'' initial_ChatService"

definition ex_bob :: ChatService where
  "ex_bob = initialize ''bob'' initial_ChatService"

definition ex_msg_A :: ChatMessage where
  "ex_msg_A = \<lparr>msg_id = ''A'', senderId = ''alice'', senderName = None, msg_text = ''first'', ts = 0\<rparr>"

definition ex_msg_B :: ChatMessage where
  "ex_msg_B = \<lparr>msg_id = ''B'', senderId = ''alice'', senderName = None, msg_text = ''second'', ts = 4000\<rparr>"

text \<open>A chat message from bob as alice's service receives it, once and twice.\<close>

definition ex_payload :: json where
  "ex_payload = JObj [(''id'', JStr ''m1''), (''senderId'', JStr ''bob''),
                      (''text'', JStr ''hello''), (''ts'', JNum 1000)]"

definition ex_once :: ChatService where
  "ex_once = handleIncomingData ex_cfg ''r1'' 1001 1002 (Some ex_payload) ex_alice"

definition ex_twice :: ChatService where
  "ex_twice = handleIncomingData ex_cfg ''r2'' 1003 1004 (Some ex_payload) ex_once"

text \<open>The message alice's service hands to the transport as the receipt for bob's message.\<close>

definition ex_receipt_envelope :: ChatMessage where
  "ex_receipt_envelope = last (sendChatMessage_calls ex_once)"

text \<open>
  The message alice's service hands to the transport when she starts typing at time
  2000.
\<close>

definition ex_typing_envelope :: ChatMessage where
  "ex_typing_envelope =
     last (sendChatMessage_calls (sendTypingIndicator ex_cfg True ''t1'' 2000 2001 True ex_alice))"

text \<open>Alice's service once the connection is up.\<close>

definition ex_online :: ChatService where
  "ex_online = onConnectionStateChanged ex_cfg ex_send_fail Connected ex_alice"

text \<open>
  Message A is sent at time 0 and every send fails: the first attempt, the second when
  the retry timer of 1000 ms fires, the third when the retry timer of 2000 ms fires.
  Message B is then sent at time 4000, before the cleanup timer of A fires.
\<close>

definition ex_attempt1 :: ChatService where
  "ex_attempt1 = snd (sendMessage ex_cfg ex_send_fail ''A'' 0 0 ''first'' ex_opts ex_online)"

definition ex_attempt2 :: ChatService where
  "ex_attempt2 = fire ex_cfg ex_send_fail (RetryTimer ''A'' 1000) ex_attempt1"

definition ex_attempt3 :: ChatService where
  "ex_attempt3 = fire ex_cfg ex_send_fail (RetryTimer ''A'' 2000) ex_attempt2"

definition ex_attempt4 :: ChatService where
  "ex_attempt4 = snd (sendMessage ex_cfg ex_send_fail ''B'' 4000 4000 ''second'' ex_opts ex_attempt3)"

text \<open>Messages A (time 0) and B (time 10) sent while the connection is down.\<close>

definition ex_offline_AB :: ChatService where
  "ex_offline_AB =
     snd (sendMessage ex_cfg ex_send_ok ''B'' 10 10 ''second'' ex_opts
       (snd (sendMessage ex_cfg ex_send_ok ''A'' 0 0 ''first'' ex_opts ex_alice)))"

subsection \<open>A session that loses the connection and gets it back\<close>

text \<open>
  From a state of the application: alice starts a session at time 0 and the connection
  comes up; the transport reports that it is reconnecting; messages A (time 100) and
  B (time 110) are sent; the transport reports that it has reconnected. Every send the
  chat service hands to the transport would succeed.
\<close>

definition ex_session :: "App \<Rightarrow> App" where
  "ex_session a =
     snd (startSession ex_cfg ex_send_ok ''alice'' ''Alice'' ''room'' 0 ex_fetch_ok ex_rnd_zero None a)"

definition ex_session_queued :: "App \<Rightarrow> App" where
  "ex_session_queued a =
     snd (app_sendMessage ex_cfg ex_send_ok ''B'' 110 110 ''second'' ex_opts
       (snd (app_sendMessage ex_cfg ex_send_ok ''A'' 100 100 ''first'' ex_opts
         (app_livekit ex_cfg ex_send_ok (Op_event RoomReconnecting) (ex_session a)))))"

definition ex_session_reconnected :: "App \<Rightarrow> App" where
  "ex_session_reconnected a =
     app_livekit ex_cfg ex_send_ok (Op_event RoomReconnected) (ex_session_queued a)"

section \<open>The connection state and its notifications\<close>

lemma updateConnectionState_consistent:
  "notifications_consistent s \<Longrightarrow> notifications_consistent (updateConnectionState st s)"
  by (auto simp: notifications_consistent_def updateConnectionState_def distinct_adj_append_iff)

lemma notifications_consistent_cong:
  "onConnectionStateChanged_calls s' = onConnectionStateChanged_calls s \<Longrightarrow>
   connectionState s' = connectionState s \<Longrightarrow>
   notifications_consistent s' = notifications_consistent s"
  by (simp add: notifications_consistent_def)

lemma connect_consistent:
  assumes "notifications_consistent s"
  shows "notifications_consistent (snd (connect fetch rnd now room_connect s))"
proof (cases "getValidToken fetch rnd now (tokenService s)")
  case (Pair r t)
  have a: "notifications_consistent (s\<lparr>tokenService := t\<rparr>)"
    using assms by (simp add: notifications_consistent_def)
  show ?thesis
  proof (cases r)
    case (Inl e)
    with Pair a show ?thesis
      by (simp add: connect_def updateConnectionState_consistent)
  next
    case (Inr tok)
    define s1 where "s1 = (if \<not> room (s\<lparr>tokenService := t\<rparr>)
        then s\<lparr>tokenService := t, room := True, rooms_created := Suc (rooms_created s)\<rparr>
        else s\<lparr>tokenService := t\<rparr>)"
    have "notifications_consistent s1"
      using a by (simp add: s1_def notifications_consistent_def)
    then have b: "notifications_consistent (updateConnectionState Connecting s1)"
      by (rule updateConnectionState_consistent)
    define s3 where "s3 = (updateConnectionState Connecting s1)
        \<lparr>room_connect_calls := Suc (room_connect_calls (updateConnectionState Connecting s1))\<rparr>"
    have c: "notifications_consistent s3"
      using b by (simp add: s3_def notifications_consistent_def)
    have d: "notifications_consistent ((updateConnectionState Connected s3)\<lparr>reconnectAttempts := 0\<rparr>)"
      using updateConnectionState_consistent [OF c, of Connected]
      by (simp add: notifications_consistent_def)
    have "snd (connect fetch rnd now room_connect s) =
        (case room_connect of
           None \<Rightarrow> (updateConnectionState Connected s3)\<lparr>reconnectAttempts := 0\<rparr>
         | Some e \<Rightarrow> updateConnectionState Failed s3)"
      using Pair Inr by (simp add: connect_def Let_def s1_def s3_def split: option.splits)
    with c d show ?thesis
      by (simp add: updateConnectionState_consistent split: option.splits)
  qed
qed

lemma disconnect_consistent:
  assumes "notifications_consistent s"
  shows "notifications_consistent (snd (disconnect room_disconnect s))"
proof (cases "room s \<and> room_disconnect \<noteq> None")
  case True
  with assms show ?thesis
    by (simp add: disconnect_def stopAudioLevelMonitoring_def notifications_consistent_def Let_def)
next
  case False
  define s3 where "s3 = (if room s
      then s\<lparr>audioLevelTimer := False, room := False,
              room_disconnect_calls := Suc (room_disconnect_calls s),
              tokenService := clearToken (tokenService s)\<rparr>
      else s\<lparr>audioLevelTimer := False, tokenService := clearToken (tokenService s)\<rparr>)"
  have "notifications_consistent s3"
    using assms by (simp add: s3_def notifications_consistent_def)
  then have a: "notifications_consistent (updateConnectionState Disconnected s3)"
    by (rule updateConnectionState_consistent)
  have "snd (disconnect room_disconnect s) =
      updateAudioState \<lparr>isMuted = True, isPublishing = False, hasPermission = False, audioLevel = 0\<rparr>
        (updateConnectionState Disconnected s3)"
    using False by (simp add: disconnect_def stopAudioLevelMonitoring_def Let_def s3_def)
  with a show ?thesis
    by (simp add: updateAudioState_def notifications_consistent_def)
qed

lemma on_RoomEvent_consistent:
  assumes "notifications_consistent s"
  shows "notifications_consistent (on_RoomEvent e s)"
proof (cases e)
  case RoomReconnected
  have "notifications_consistent ((updateConnectionState Connected s)\<lparr>reconnectAttempts := 0\<rparr>)"
    using updateConnectionState_consistent [OF assms, of Connected]
    by (simp add: notifications_consistent_def)
  with RoomReconnected show ?thesis by simp
qed (simp_all add: updateConnectionState_consistent assms)

lemma do_op_consistent:
  "notifications_consistent s \<Longrightarrow> notifications_consistent (do_op op s)"
  by (cases op) (simp_all add: connect_consistent disconnect_consistent on_RoomEvent_consistent)

lemma run_consistent:
  "notifications_consistent s \<Longrightarrow> notifications_consistent (fold do_op ops s)"
  by (induction ops arbitrary: s) (simp_all add: do_op_consistent)

text \<open>
  Claim C10. An update of the connection state to the state the service is already in
  changes nothing and notifies nobody; an update to another state sets it and notifies
  once. So after any run of connects, disconnects and transport events from a state
  with consistent notifications, no two notifications in a row carry the same state.
\<close>

theorem updateConnectionState_no_repeat:
  assumes "notifications_consistent s"
  shows "(connectionState s = st \<longrightarrow> updateConnectionState st s = s) \<and>
         (connectionState s \<noteq> st \<longrightarrow>
            connectionState (updateConnectionState st s) = st \<and>
            onConnectionStateChanged_calls (updateConnectionState st s) =
              onConnectionStateChanged_calls s @ [st]) \<and>
         distinct_adj (onConnectionStateChanged_calls (updateConnectionState st s)) \<and>
         distinct_adj (onConnectionStateChanged_calls (fold do_op ops s))"
proof -
  have "notifications_consistent (updateConnectionState st s)"
    using assms by (rule updateConnectionState_consistent)
  moreover have "notifications_consistent (fold do_op ops s)"
    using assms by (rule run_consistent)
  ultimately show ?thesis
    by (simp add: updateConnectionState_def notifications_consistent_def)
qed

text \<open>
  The claim at the initial service: an update to \<open>Disconnected\<close> is a no-op, and two
  transport events \<open>Connected\<close> in a row after a reconnection notify once.
\<close>

theorem updateConnectionState_no_repeat_witness:
  "notifications_consistent initial_LiveKitService \<and>
   updateConnectionState Disconnected initial_LiveKitService = initial_LiveKitService \<and>
   onConnectionStateChanged_calls
     (fold do_op [Op_event RoomReconnecting, Op_event RoomReconnected, Op_event RoomConnected]
        initial_LiveKitService) = [Reconnecting, Connected]"
  using updateConnectionState_no_repeat [of initial_LiveKitService Disconnected
      "[Op_event RoomReconnecting, Op_event RoomReconnected, Op_event RoomConnected]"]
  by (simp add: notifications_consistent_def initial_LiveKitService_def updateConnectionState_def)

section \<open>Connecting and disconnecting\<close>

lemma fetchWithRetry_first_resolved:
  "fetch 1 = Resolved r \<Longrightarrow>
   fetchWithRetry fetch rnd = \<lparr>outcome = Inr r, fetch_calls = 1, sleeps = []\<rparr>"
  unfolding fetchWithRetry_def
  by (subst fetchWithRetry_loop.simps) (simp add: MAX_RETRY_ATTEMPTS_def)

lemma ex_connected_eq:
  "ex_connected =
     \<lparr>room = True, connectionState = Connected, audioState = initial_AudioState,
      audioLevelTimer = False, reconnectAttempts = 0,
      tokenService = \<lparr>currentToken = Some ''jwt'', tokenExpiresAt = Some 3600000,
                       refreshTimer = Some 3540000\<rparr>,
      onConnectionStateChanged_calls = [Connecting, Connected], onAudioStateChanged_calls = [],
      rooms_created = 1, room_connect_calls = 1, room_disconnect_calls = 0,
      publishData_calls = []\<rparr>"
  by (simp add: ex_connected_def connect_def getValidToken_def requestToken_def
      fetchWithRetry_first_resolved ex_fetch_ok_def ex_token_response_def ok_def
      initial_LiveKitService_def updateConnectionState_def scheduleTokenRefresh_def
      TOKEN_REFRESH_BUFFER_def Let_def)

lemma ex_connected_token:
  "getValidToken ex_fetch_ok ex_rnd_zero 0 (tokenService ex_connected) =
     (Inr ''jwt'', tokenService ex_connected)"
  by (simp add: ex_connected_eq getValidToken_def isTokenValid_def TOKEN_REFRESH_BUFFER_def)

text \<open>
  Claim C5, as stated, fails: \<open>connect\<close> has no guard on the connection state. Called
  on the connected service it calls the transport's \<open>connect\<close> a second time and
  notifies \<open>Connecting\<close> and \<open>Connected\<close> again.
\<close>

theorem connect_not_idempotent:
  "connectionState ex_connected = Connected \<and>
   room_connect_calls ex_connected = 1 \<and>
   room_connect_calls (snd (connect ex_fetch_ok ex_rnd_zero 0 None ex_connected)) = 2 \<and>
   onConnectionStateChanged_calls (snd (connect ex_fetch_ok ex_rnd_zero 0 None ex_connected)) =
     [Connecting, Connected, Connecting, Connected]"
  by (simp add: connect_def ex_connected_token)
     (simp add: ex_connected_eq updateConnectionState_def)

text \<open>
  Claim C5, amended. Called while the state is \<open>Connecting\<close> or \<open>Connected\<close>, with a
  token at hand, \<open>connect\<close> calls the transport's \<open>connect\<close> once more. It builds no
  second \<open>Room\<close> when one is held. When the transport resolves the call returns, the
  state is \<open>Connected\<close>, and the subscribers were notified of \<open>Connecting\<close> (unless
  that was the state) and of \<open>Connected\<close>; when the transport rejects, the error is
  raised and the state is \<open>Failed\<close>.
\<close>

theorem connect_while_connected_reconnects:
  assumes st: "connectionState s = Connecting \<or> connectionState s = Connected"
    and tok: "getValidToken fetch rnd now (tokenService s) = (Inr tok, t)"
  shows "room_connect_calls (snd (connect fetch rnd now room_connect s)) = Suc (room_connect_calls s) \<and>
         rooms_created (snd (connect fetch rnd now room_connect s)) =
           (if room s then rooms_created s else Suc (rooms_created s)) \<and>
         (room_connect = None \<longrightarrow>
            fst (connect fetch rnd now room_connect s) = Inr () \<and>
            connectionState (snd (connect fetch rnd now room_connect s)) = Connected \<and>
            onConnectionStateChanged_calls (snd (connect fetch rnd now room_connect s)) =
              onConnectionStateChanged_calls s @
                (if connectionState s = Connected then [Connecting, Connected] else [Connected])) \<and>
         (\<forall>e. room_connect = Some e \<longrightarrow>
            fst (connect fetch rnd now room_connect s) = Inl (handle e) \<and>
            connectionState (snd (connect fetch rnd now room_connect s)) = Failed)"
  using st by (auto simp: connect_def tok updateConnectionState_def Let_def split: option.splits)

theorem connect_while_connected_reconnects_witness:
  "connectionState ex_connected = Connected \<and>
   fst (connect ex_fetch_ok ex_rnd_zero 0 None ex_connected) = Inr () \<and>
   room_connect_calls (snd (connect ex_fetch_ok ex_rnd_zero 0 None ex_connected)) = 2 \<and>
   rooms_created (snd (connect ex_fetch_ok ex_rnd_zero 0 None ex_connected)) = 1 \<and>
   connectionState (snd (connect ex_fetch_ok ex_rnd_zero 0 None ex_connected)) = Connected"
  using connect_while_connected_reconnects
    [of ex_connected ex_fetch_ok ex_rnd_zero 0 "''jwt''" "tokenService ex_connected" None]
    ex_connected_token
  by (simp add: ex_connected_eq)

text \<open>
  Claim C6, as stated, fails: when the transport's \<open>disconnect\<close> rejects, the
  \<open>catch\<close> block raises the error again, the state stays \<open>Connected\<close> and the room
  is kept.
\<close>

theorem disconnect_rethrows:
  "fst (disconnect (Some ex_transport_error) ex_connected) =
     Inl (AppError ''could not close the connection'' UNKNOWN_ERROR) \<and>
   connectionState (snd (disconnect (Some ex_transport_error) ex_connected)) = Connected \<and>
   room (snd (disconnect (Some ex_transport_error) ex_connected))"
  by (simp add: ex_connected_eq disconnect_def stopAudioLevelMonitoring_def ex_transport_error_def Let_def)

text \<open>
  Claim C6, amended. From every state, when no room is held or the transport's
  \<open>disconnect\<close> resolves, \<open>disconnect\<close> returns normally with the state
  \<open>Disconnected\<close>, the room released and the token cleared. When a room is held and the
  transport's \<open>disconnect\<close> rejects, the error is raised to the caller and the
  connection state, the room and the notifications are as before.
\<close>

theorem disconnect_best_effort:
  "(\<not> (room s \<and> room_disconnect \<noteq> None) \<longrightarrow>
      fst (disconnect room_disconnect s) = Inr () \<and>
      connectionState (snd (disconnect room_disconnect s)) = Disconnected \<and>
      \<not> room (snd (disconnect room_disconnect s)) \<and>
      tokenService (snd (disconnect room_disconnect s)) =
        \<lparr>currentToken = None, tokenExpiresAt = None, refreshTimer = None\<rparr>) \<and>
   (\<forall>e. room s \<and> room_disconnect = Some e \<longrightarrow>
      fst (disconnect room_disconnect s) = Inl (handle e) \<and>
      connectionState (snd (disconnect room_disconnect s)) = connectionState s \<and>
      room (snd (disconnect room_disconnect s)) \<and>
      onConnectionStateChanged_calls (snd (disconnect room_disconnect s)) =
        onConnectionStateChanged_calls s)"
  by (auto simp: disconnect_def stopAudioLevelMonitoring_def updateConnectionState_def
      updateAudioState_def clearToken_def Let_def)

theorem disconnect_best_effort_witness:
  "room ex_connected \<and>
   fst (disconnect None ex_connected) = Inr () \<and>
   connectionState (snd (disconnect None ex_connected)) = Disconnected \<and>
   \<not> room (snd (disconnect None ex_connected)) \<and>
   fst (disconnect (Some ex_transport_error) ex_connected) = Inl (handle ex_transport_error) \<and>
   connectionState (snd (disconnect (Some ex_transport_error) ex_connected)) = Connected"
  using disconnect_best_effort [of ex_connected None]
    disconnect_best_effort [of ex_connected "Some ex_transport_error"]
  by (simp add: ex_connected_eq)

section \<open>Fetching the token\<close>

lemma loop_resolved:
  "attempt \<le> MAX_RETRY_ATTEMPTS \<Longrightarrow> fetch attempt = Resolved r \<Longrightarrow>
   fetchWithRetry_loop fetch rnd attempt d sl = \<lparr>outcome = Inr r, fetch_calls = attempt, sleeps = sl\<rparr>"
  by (subst fetchWithRetry_loop.simps) simp

lemma loop_retry:
  "attempt < MAX_RETRY_ATTEMPTS \<Longrightarrow> fetch attempt = Rejected e \<Longrightarrow> retryable e \<Longrightarrow>
   fetchWithRetry_loop fetch rnd attempt d sl =
   fetchWithRetry_loop fetch rnd (Suc attempt) (min (d * 2) 8000) (sl @ [real d + rnd attempt * 250])"
  by (subst fetchWithRetry_loop.simps) simp

lemma loop_last:
  "fetch MAX_RETRY_ATTEMPTS = Rejected e \<Longrightarrow>
   fetchWithRetry_loop fetch rnd MAX_RETRY_ATTEMPTS d sl = give_up MAX_RETRY_ATTEMPTS sl"
  by (subst fetchWithRetry_loop.simps) simp

lemma loop_fatal:
  "attempt \<le> MAX_RETRY_ATTEMPTS \<Longrightarrow> fetch attempt = Rejected e \<Longrightarrow> \<not> retryable e \<Longrightarrow>
   fetchWithRetry_loop fetch rnd attempt d sl = give_up attempt sl"
  by (subst fetchWithRetry_loop.simps) simp

text \<open>Three rejections, the first two of a kind the loop retries.\<close>

lemma fetchWithRetry_three_rejections:
  assumes f1: "fetch 1 = Rejected e1" and r1: "retryable e1"
    and f2: "fetch 2 = Rejected e2" and r2: "retryable e2"
    and f3: "fetch 3 = Rejected e3"
  shows "fetchWithRetry fetch rnd =
           \<lparr>outcome = Inl handleNetworkError, fetch_calls = 3,
            sleeps = [1000 + rnd 1 * 250, 2000 + rnd 2 * 250]\<rparr>"
proof -
  have m: "MAX_RETRY_ATTEMPTS = 3" by (simp add: MAX_RETRY_ATTEMPTS_def)
  have "fetchWithRetry fetch rnd = fetchWithRetry_loop fetch rnd 1 1000 []"
    by (simp add: fetchWithRetry_def RETRY_BASE_DELAY_def)
  also have "\<dots> = fetchWithRetry_loop fetch rnd (Suc 1) (min (1000 * 2) 8000) ([] @ [real 1000 + rnd 1 * 250])"
    using loop_retry [where fetch=fetch and rnd=rnd and attempt=1 and e=e1 and d=1000 and sl="[]"] f1 r1
    by (simp add: m)
  also have "\<dots> = fetchWithRetry_loop fetch rnd 2 2000 [1000 + rnd 1 * 250]"
    by (simp add: numeral_2_eq_2)
  also have "\<dots> = fetchWithRetry_loop fetch rnd (Suc 2) (min (2000 * 2) 8000)
      ([1000 + rnd 1 * 250] @ [real 2000 + rnd 2 * 250])"
    using loop_retry [where fetch=fetch and rnd=rnd and attempt=2 and e=e2 and d=2000
        and sl="[1000 + rnd 1 * 250]"] f2 r2
    by (simp add: m)
  also have "\<dots> = fetchWithRetry_loop fetch rnd MAX_RETRY_ATTEMPTS 4000
      [1000 + rnd 1 * 250, 2000 + rnd 2 * 250]"
    by (simp add: m numeral_3_eq_3 numeral_2_eq_2)
  also have "\<dots> = give_up MAX_RETRY_ATTEMPTS [1000 + rnd 1 * 250, 2000 + rnd 2 * 250]"
    by (rule loop_last) (simp add: m f3)
  finally show ?thesis
    by (simp add: give_up_def m)
qed

lemma retryable_timeout: "retryable (JsError ''AbortError'' m)"
  by (simp add: retryable_def)

lemma fetchWithRetry_all_timeouts:
  "fetchWithRetry ex_fetch_timeout ex_rnd_zero =
     \<lparr>outcome = Inl handleNetworkError, fetch_calls = 3, sleeps = [1000, 2000]\<rparr>"
  using fetchWithRetry_three_rejections [where fetch=ex_fetch_timeout and rnd=ex_rnd_zero,
      OF _ retryable_timeout _ retryable_timeout]
  by (simp add: ex_fetch_timeout_def ex_rnd_zero_def)

text \<open>
  Claim C3, as stated, fails on the numbers: when every fetch times out the service
  calls \<open>fetch\<close> three times, not five, and the first wait (with a random draw of 0) is
  1000 ms, which is not within 250 ms of 500 ms.
\<close>

theorem fetchWithRetry_not_five_attempts_from_500ms:
  "fetch_calls (fetchWithRetry ex_fetch_timeout ex_rnd_zero) = 3 \<and>
   fetch_calls (fetchWithRetry ex_fetch_timeout ex_rnd_zero) \<noteq> 5 \<and>
   hd (sleeps (fetchWithRetry ex_fetch_timeout ex_rnd_zero)) = 1000 \<and>
   \<not> \<bar>hd (sleeps (fetchWithRetry ex_fetch_timeout ex_rnd_zero)) - 500\<bar> \<le> 250"
  by (simp add: fetchWithRetry_all_timeouts)

text \<open>
  Claim C3, amended. When the fetch is rejected every time with a failure the loop
  retries (a timeout abort, an error whose message contains \<open>NetworkError\<close>, or a thrown
  value that is no \<open>Error\<close>), the service calls \<open>fetch\<close> three times and then raises the
  terminal \<open>NETWORK_ERROR\<close>. It waits twice: 1000 ms and 2000 ms (base 1000 ms, factor
  2), each plus a jitter of 0 up to 250 ms, and every wait is below the cap of 8 s plus
  the jitter.
\<close>

theorem fetchWithRetry_transient_policy:
  assumes f1: "fetch 1 = Rejected e1" and r1: "retryable e1"
    and f2: "fetch 2 = Rejected e2" and r2: "retryable e2"
    and f3: "fetch 3 = Rejected e3"
    and rnd: "\<And>k. 0 \<le> rnd k \<and> rnd k < 1"
  shows "outcome (fetchWithRetry fetch rnd) = Inl (AppError ''Network connection failed'' NETWORK_ERROR) \<and>
         fetch_calls (fetchWithRetry fetch rnd) = 3 \<and>
         sleeps (fetchWithRetry fetch rnd) = [1000 + rnd 1 * 250, 2000 + rnd 2 * 250] \<and>
         1000 \<le> sleeps (fetchWithRetry fetch rnd) ! 0 \<and> sleeps (fetchWithRetry fetch rnd) ! 0 < 1250 \<and>
         2000 \<le> sleeps (fetchWithRetry fetch rnd) ! 1 \<and> sleeps (fetchWithRetry fetch rnd) ! 1 < 2250 \<and>
         (\<forall>d \<in> set (sleeps (fetchWithRetry fetch rnd)). d < 8000 + 250)"
proof -
  have eq: "fetchWithRetry fetch rnd =
      \<lparr>outcome = Inl handleNetworkError, fetch_calls = 3,
       sleeps = [1000 + rnd 1 * 250, 2000 + rnd 2 * 250]\<rparr>"
    using f1 r1 f2 r2 f3 by (rule fetchWithRetry_three_rejections)
  have "0 \<le> rnd 1" "rnd 1 < 1" "0 \<le> rnd 2" "rnd 2 < 1"
    using rnd by auto
  then show ?thesis
    unfolding eq by (simp add: handleNetworkError_def)
qed

theorem fetchWithRetry_transient_policy_witness:
  "outcome (fetchWithRetry ex_fetch_timeout ex_rnd_zero) =
     Inl (AppError ''Network connection failed'' NETWORK_ERROR) \<and>
   fetch_calls (fetchWithRetry ex_fetch_timeout ex_rnd_zero) = 3 \<and>
   sleeps (fetchWithRetry ex_fetch_timeout ex_rnd_zero) = [1000, 2000]"
  using fetchWithRetry_transient_policy [where fetch=ex_fetch_timeout and rnd=ex_rnd_zero
      and ?e1.0="JsError ''AbortError'' ''The operation was aborted''"
      and ?e2.0="JsError ''AbortError'' ''The operation was aborted''"
      and ?e3.0="JsError ''AbortError'' ''The operation was aborted''"]
  by (simp add: ex_fetch_timeout_def ex_rnd_zero_def retryable_timeout)

text \<open>A response ends the loop at the attempt that received it, whatever its status.\<close>

lemma loop_response_ends:
  assumes "fetch n = Resolved r" and "attempt \<le> n" and "n \<le> MAX_RETRY_ATTEMPTS"
    and "\<forall>k. attempt \<le> k \<and> k < n \<longrightarrow> (\<exists>e. fetch k = Rejected e \<and> retryable e)"
  shows "outcome (fetchWithRetry_loop fetch rnd attempt d sl) = Inr r \<and>
         fetch_calls (fetchWithRetry_loop fetch rnd attempt d sl) = n \<and>
         length (sleeps (fetchWithRetry_loop fetch rnd attempt d sl)) = length sl + (n - attempt)"
  using assms
proof (induction "n - attempt" arbitrary: attempt d sl)
  case 0
  then have "attempt = n" by simp
  with 0 show ?case by (simp add: loop_resolved)
next
  case (Suc m)
  then have lt: "attempt < n" by simp
  with Suc.prems obtain e where e: "fetch attempt = Rejected e" "retryable e" by auto
  have step: "fetchWithRetry_loop fetch rnd attempt d sl =
      fetchWithRetry_loop fetch rnd (Suc attempt) (min (d * 2) 8000) (sl @ [real d + rnd attempt * 250])"
    using lt Suc.prems(3) e by (intro loop_retry) auto
  have "m = n - Suc attempt" using Suc.hyps(2) by simp
  from Suc.hyps(1) [OF this Suc.prems(1)] lt Suc.prems(3,4)
  have "outcome (fetchWithRetry_loop fetch rnd (Suc attempt) (min (d * 2) 8000)
            (sl @ [real d + rnd attempt * 250])) = Inr r \<and>
        fetch_calls (fetchWithRetry_loop fetch rnd (Suc attempt) (min (d * 2) 8000)
            (sl @ [real d + rnd attempt * 250])) = n \<and>
        length (sleeps (fetchWithRetry_loop fetch rnd (Suc attempt) (min (d * 2) 8000)
            (sl @ [real d + rnd attempt * 250]))) =
          length (sl @ [real d + rnd attempt * 250]) + (n - Suc attempt)"
    by simp
  with step lt show ?case by simp
qed

lemma fetchWithRetry_500:
  "fetchWithRetry ex_fetch_500 ex_rnd_zero =
     \<lparr>outcome = Inr ex_response_500, fetch_calls = 1, sleeps = []\<rparr>"
  by (rule fetchWithRetry_first_resolved) (simp add: ex_fetch_500_def)

lemma string_of_nat_500: "string_of_nat 500 = ''500''"
  by code_simp

text \<open>
  Claim C4, as stated, fails for the statuses other than 401 and 403: a response with
  status 500 is answered by one call of \<open>fetch\<close> and no wait, and the request raises
  the API error with code 500.
\<close>

theorem status_500_not_retried:
  "\<not> ok ex_response_500 \<and> resp_status ex_response_500 \<noteq> 401 \<and> resp_status ex_response_500 \<noteq> 403 \<and>
   fetch_calls (fetchWithRetry ex_fetch_500 ex_rnd_zero) = 1 \<and>
   sleeps (fetchWithRetry ex_fetch_500 ex_rnd_zero) = [] \<and>
   fst (requestToken ex_fetch_500 ex_rnd_zero 0 ex_no_token) =
     Inl (AppError ''API Error: 500 Internal Server Error'' (HttpStatus 500))"
  by (simp add: fetchWithRetry_500 requestToken_def Let_def handleApiError_def string_of_nat_500
      ex_response_500_def ok_def)

text \<open>
  Claim C4, amended. A response with a status outside 200 to 299 is never retried,
  whether the status is 401, 403 or any other: the attempt that receives it is the last
  call of \<open>fetch\<close>, and the request raises an \<open>AppError\<close> whose code is the status,
  leaving the stored token as it was. Only rejected fetches are retried.
\<close>

theorem non_2xx_never_retried:
  assumes resp: "fetch n = Resolved response" and bad: "\<not> ok response"
    and n: "1 \<le> n" "n \<le> MAX_RETRY_ATTEMPTS"
    and before: "\<forall>k. 1 \<le> k \<and> k < n \<longrightarrow> (\<exists>e. fetch k = Rejected e \<and> retryable e)"
  shows "fetch_calls (fetchWithRetry fetch rnd) = n \<and>
         length (sleeps (fetchWithRetry fetch rnd)) = n - 1 \<and>
         fst (requestToken fetch rnd now s) =
           Inl (handleApiError (resp_status response) (statusText response)) \<and>
         code (handleApiError (resp_status response) (statusText response)) =
           HttpStatus (resp_status response) \<and>
         snd (snd (requestToken fetch rnd now s)) = s"
proof -
  have "outcome (fetchWithRetry fetch rnd) = Inr response \<and>
        fetch_calls (fetchWithRetry fetch rnd) = n \<and>
        length (sleeps (fetchWithRetry fetch rnd)) = length ([]::real list) + (n - 1)"
    unfolding fetchWithRetry_def
    by (rule loop_response_ends [OF resp n(1) n(2) before])
  then show ?thesis
    using bad by (simp add: requestToken_def Let_def handleApiError_def)
qed

theorem non_2xx_never_retried_witness:
  "\<not> ok ex_response_500 \<and>
   fetch_calls (fetchWithRetry ex_fetch_500 ex_rnd_zero) = 1 \<and>
   fst (requestToken ex_fetch_500 ex_rnd_zero 0 ex_no_token) =
     Inl (handleApiError 500 ''Internal Server Error'') \<and>
   snd (snd (requestToken ex_fetch_500 ex_rnd_zero 0 ex_no_token)) = ex_no_token"
  using non_2xx_never_retried [of ex_fetch_500 1 ex_response_500 ex_rnd_zero 0 ex_no_token]
  by (simp add: ex_fetch_500_def ex_response_500_def ok_def MAX_RETRY_ATTEMPTS_def)

section \<open>The message queue\<close>

lemma sendQueuedMessage_calls:
  "sendChatMessage_calls (snd (sendQueuedMessage cfg send qm s)) =
     sendChatMessage_calls s @ [message qm]"
  by (simp add: sendQueuedMessage_def store_def addToHistory_def Let_def)

lemma fold_sendQueuedMessage_calls:
  "sendChatMessage_calls (fold (\<lambda>qm st. snd (sendQueuedMessage cfg send qm st)) qms s) =
     sendChatMessage_calls s @ map message qms"
  by (induction qms arbitrary: s) (simp_all add: sendQueuedMessage_calls)

lemma processMessageQueue_calls:
  "sendChatMessage_calls (processMessageQueue cfg send s) =
     sendChatMessage_calls s @ (if isConnected s then map message (pendingMessages s) else [])"
  by (simp add: processMessageQueue_def fold_sendQueuedMessage_calls)

lemma pendingMessages_cong:
  "messageQueue s' = messageQueue s \<Longrightarrow> pendingMessages s' = pendingMessages s"
  by (simp add: pendingMessages_def)

lemma trim_first: "trim ''first'' = ''first''"
  by (simp add: trim_def is_space_def)

lemma trim_second: "trim ''second'' = ''second''"
  by (simp add: trim_def is_space_def)

lemmas chat_eval = sendMessage_def processMessageQueue_def pendingMessages_def sendQueuedMessage_def
  store_def Map_set_def Map_has_def Map_delete_def userId_or_unknown_def timeout_or_default_def
  ex_cfg_def ex_send_fail_def ex_send_ok_def ex_opts_def Let_def

lemma ex_offline_AB_eq:
  "ex_offline_AB = initial_ChatService
     \<lparr>currentUserId := Some ''alice'',
      messageQueue :=
        [(''A'', \<lparr>message = ex_msg_A, status = pending, attempts = 0, timestamp = 0,
                 options = ex_opts\<rparr>),
         (''B'', \<lparr>message = \<lparr>msg_id = ''B'', senderId = ''alice'', senderName = None,
                            msg_text = ''second'', ts = 10\<rparr>,
                 status = pending, attempts = 0, timestamp = 10, options = ex_opts\<rparr>)]\<rparr>"
  by (simp add: ex_offline_AB_def ex_alice_def initialize_def initial_ChatService_def
      ex_msg_A_def trim_first trim_second chat_eval)

text \<open>
  The chat service taken alone. While it is not connected the queue processor changes
  nothing, so a message sent then is queued and nothing is handed to the transport.
  When its handler for the connection state is called with \<open>Connected\<close> it runs the
  processor, which hands the pending and failed messages of the queue to the transport
  in the order of their enqueue times, oldest first.
\<close>

lemma handler_flushes_oldest_first:
  assumes "\<not> isConnected s"
  shows "processMessageQueue cfg send s = s \<and>
         sendChatMessage_calls (snd (sendMessage cfg send messageId now1 now2 txt opts s)) =
           sendChatMessage_calls s \<and>
         sendChatMessage_calls (onConnectionStateChanged cfg send Connected s) =
           sendChatMessage_calls s @ map message (pendingMessages s) \<and>
         sorted (map timestamp (pendingMessages s)) \<and>
         set (pendingMessages s) =
           {qm \<in> snd ` set (messageQueue s). status qm = pending \<or> status qm = failed}"
proof -
  have a: "processMessageQueue cfg send s = s"
    using assms by (simp add: processMessageQueue_def)
  have b: "sendChatMessage_calls (snd (sendMessage cfg send messageId now1 now2 txt opts s)) =
           sendChatMessage_calls s"
    using assms by (simp add: sendMessage_def processMessageQueue_def Let_def)
  have c: "sendChatMessage_calls (onConnectionStateChanged cfg send Connected s) =
           sendChatMessage_calls s @ map message (pendingMessages s)"
    using assms
    by (simp add: onConnectionStateChanged_def Let_def processMessageQueue_calls
        pendingMessages_cong [of "s\<lparr>isConnected := True\<rparr>" s])
  have d: "sorted (map timestamp (pendingMessages s))"
    by (simp add: pendingMessages_def)
  have e: "set (pendingMessages s) =
           {qm \<in> snd ` set (messageQueue s). status qm = pending \<or> status qm = failed}"
    by (auto simp: pendingMessages_def)
  from a b c d e show ?thesis by blast
qed

lemma handler_flushes_A_then_B:
  "\<not> isConnected ex_offline_AB \<and>
   sendChatMessage_calls ex_offline_AB = [] \<and>
   map msg_id (sendChatMessage_calls (onConnectionStateChanged ex_cfg ex_send_ok Connected ex_offline_AB))
     = [''A'', ''B'']"
  using handler_flushes_oldest_first [of ex_offline_AB ex_cfg ex_send_ok]
  by (simp add: ex_offline_AB_eq initial_ChatService_def pendingMessages_def ex_msg_A_def)

section \<open>The message queue in the application\<close>

text \<open>
  After the constructor of the chat service the connection service holds the handlers
  of the chat service; after the constructor of the auth service it holds the handlers
  of the auth service for the connection state and for the data received.
\<close>

lemma handlers_chat:
  "eventHandlers chat_service_loaded OnConnectionStateChanged = Some ChatService_handler \<and>
   eventHandlers chat_service_loaded OnDataReceived = Some ChatService_handler"
  by (simp add: chat_service_loaded_def setupLiveKitIntegration_def setEventHandlers_def)

lemma handlers_auth:
  "eventHandlers auth_service_loaded OnConnectionStateChanged = Some AuthService_handler \<and>
   eventHandlers auth_service_loaded OnDataReceived = Some AuthService_handler"
  by (simp add: auth_service_loaded_def chat_service_loaded_def setupLiveKitEventHandlers_def
      setupLiveKitIntegration_def setEventHandlers_def)

text \<open>The component keeps both: it gives no handler for either event.\<close>

lemma handlers_auth_ParticipantsList:
  "ParticipantsList_effect (eventHandlers auth_service_loaded) OnConnectionStateChanged =
     Some AuthService_handler \<and>
   ParticipantsList_effect (eventHandlers auth_service_loaded) OnDataReceived =
     Some AuthService_handler"
  by (simp add: ParticipantsList_effect_def auth_service_loaded_def chat_service_loaded_def
      setupLiveKitEventHandlers_def setupLiveKitIntegration_def setEventHandlers_def)

lemma auth_loaded_parts:
  "livekitService auth_service_loaded = initial_LiveKitService"
  "chatService auth_service_loaded = initial_ChatService"
  "authService auth_service_loaded = initial_AuthService"
  by (simp_all add: auth_service_loaded_def chat_service_loaded_def)

lemma chat_loaded_parts:
  "livekitService chat_service_loaded = initial_LiveKitService"
  "chatService chat_service_loaded = initial_ChatService"
  "authService chat_service_loaded = initial_AuthService"
  by (simp_all add: chat_service_loaded_def)

text \<open>
  While the handler of the auth service is the one held, an operation of the connection
  service leaves the chat service as it is; while the handler of the chat service is
  the one held, the chat service sees every notification of the operation.
\<close>

lemma fold_call_auth:
  "eventHandlers a OnConnectionStateChanged = Some AuthService_handler \<Longrightarrow>
   chatService (fold (call_onConnectionStateChanged cfg send) sts a) = chatService a \<and>
   eventHandlers (fold (call_onConnectionStateChanged cfg send) sts a) = eventHandlers a \<and>
   livekitService (fold (call_onConnectionStateChanged cfg send) sts a) = livekitService a"
  by (induction sts arbitrary: a) (simp_all add: call_onConnectionStateChanged_def)

lemma app_livekit_auth:
  assumes "eventHandlers a OnConnectionStateChanged = Some AuthService_handler"
  shows "chatService (app_livekit cfg send op a) = chatService a"
    and "eventHandlers (app_livekit cfg send op a) = eventHandlers a"
    and "livekitService (app_livekit cfg send op a) = do_op op (livekitService a)"
  using assms fold_call_auth [of "a\<lparr>livekitService := do_op op (livekitService a)\<rparr>" cfg send]
  by (simp_all add: app_livekit_def Let_def)

lemma fold_call_chat:
  "eventHandlers a OnConnectionStateChanged = Some ChatService_handler \<Longrightarrow>
   chatService (fold (call_onConnectionStateChanged cfg send) sts a) =
     fold (onConnectionStateChanged cfg send) sts (chatService a) \<and>
   eventHandlers (fold (call_onConnectionStateChanged cfg send) sts a) = eventHandlers a \<and>
   livekitService (fold (call_onConnectionStateChanged cfg send) sts a) = livekitService a"
  by (induction sts arbitrary: a) (simp_all add: call_onConnectionStateChanged_def)

lemma app_livekit_chat:
  assumes "eventHandlers a OnConnectionStateChanged = Some ChatService_handler"
  shows "chatService (app_livekit cfg send op a) =
           fold (onConnectionStateChanged cfg send)
             (drop (length (onConnectionStateChanged_calls (livekitService a)))
                (onConnectionStateChanged_calls (do_op op (livekitService a))))
             (chatService a)"
    and "eventHandlers (app_livekit cfg send op a) = eventHandlers a"
    and "livekitService (app_livekit cfg send op a) = do_op op (livekitService a)"
  using assms fold_call_chat [of "a\<lparr>livekitService := do_op op (livekitService a)\<rparr>" cfg send]
  by (simp_all add: app_livekit_def Let_def)

lemma app_sendMessage_parts:
  "chatService (snd (app_sendMessage cfg send messageId now1 now2 txt opts a)) =
     snd (sendMessage cfg send messageId now1 now2 txt opts (chatService a))"
  "eventHandlers (snd (app_sendMessage cfg send messageId now1 now2 txt opts a)) = eventHandlers a"
  "livekitService (snd (app_sendMessage cfg send messageId now1 now2 txt opts a)) = livekitService a"
  by (simp_all add: app_sendMessage_def Let_def)

subsection \<open>The session with both services loaded\<close>

lemma connect_first:
  "connect ex_fetch_ok ex_rnd_zero 0 None initial_LiveKitService = (Inr (), ex_connected)"
  by (simp add: ex_connected_eq)
     (simp add: connect_def getValidToken_def requestToken_def
      fetchWithRetry_first_resolved ex_fetch_ok_def ex_token_response_def ok_def
      initial_LiveKitService_def updateConnectionState_def scheduleTokenRefresh_def
      TOKEN_REFRESH_BUFFER_def Let_def)

lemma initial_calls: "onConnectionStateChanged_calls initial_LiveKitService = []"
  by (simp add: initial_LiveKitService_def)

lemma ex_connected_calls: "onConnectionStateChanged_calls ex_connected = [Connecting, Connected]"
  by (simp add: ex_connected_eq)

lemma ex_connected_state: "connectionState ex_connected = Connected"
  by (simp add: ex_connected_eq)

lemma ex_session_auth:
  "livekitService (ex_session auth_service_loaded) = ex_connected \<and>
   eventHandlers (ex_session auth_service_loaded) = eventHandlers auth_service_loaded \<and>
   chatService (ex_session auth_service_loaded) = ex_alice \<and>
   map_option session_connectionState (currentSession (authService (ex_session auth_service_loaded)))
     = Some Connected \<and>
   onAuthConnectionStateChanged_calls (authService (ex_session auth_service_loaded))
     = [Connecting, Connected]"
  by (simp add: ex_session_def startSession_def app_livekit_def connect_first Let_def
       auth_loaded_parts initial_calls ex_connected_calls ex_connected_state
       call_onConnectionStateChanged_def handlers_auth
       auth_onConnectionStateChanged_def notifySessionStateChanged_def initial_AuthService_def
       ex_alice_def)

lemma ex_reconnecting_auth:
  "eventHandlers (app_livekit ex_cfg ex_send_ok (Op_event RoomReconnecting)
      (ex_session auth_service_loaded)) OnConnectionStateChanged = Some AuthService_handler"
  "chatService (app_livekit ex_cfg ex_send_ok (Op_event RoomReconnecting)
      (ex_session auth_service_loaded)) = ex_alice"
  "livekitService (app_livekit ex_cfg ex_send_ok (Op_event RoomReconnecting)
      (ex_session auth_service_loaded)) = updateConnectionState Reconnecting ex_connected"
  by (simp_all add: app_livekit_auth ex_session_auth handlers_auth)

lemma ex_alice_AB:
  "snd (sendMessage ex_cfg ex_send_ok ''B'' 110 110 ''second'' ex_opts
     (snd (sendMessage ex_cfg ex_send_ok ''A'' 100 100 ''first'' ex_opts ex_alice))) =
   ex_alice
     \<lparr>messageQueue :=
        [(''A'', \<lparr>message = \<lparr>msg_id = ''A'', senderId = ''alice'', senderName = None,
                            msg_text = ''first'', ts = 100\<rparr>,
                 status = pending, attempts = 0, timestamp = 100, options = ex_opts\<rparr>),
         (''B'', \<lparr>message = \<lparr>msg_id = ''B'', senderId = ''alice'', senderName = None,
                            msg_text = ''second'', ts = 110\<rparr>,
                 status = pending, attempts = 0, timestamp = 110, options = ex_opts\<rparr>)]\<rparr>"
  by (simp add: ex_alice_def initialize_def initial_ChatService_def trim_first trim_second
      sendMessage_def processMessageQueue_def Map_set_def Map_has_def userId_or_unknown_def Let_def)

lemma ex_queued_auth:
  "eventHandlers (ex_session_queued auth_service_loaded) OnConnectionStateChanged =
     Some AuthService_handler"
  "chatService (ex_session_queued auth_service_loaded) =
     snd (sendMessage ex_cfg ex_send_ok ''B'' 110 110 ''second'' ex_opts
       (snd (sendMessage ex_cfg ex_send_ok ''A'' 100 100 ''first'' ex_opts ex_alice)))"
  "livekitService (ex_session_queued auth_service_loaded) =
     updateConnectionState Reconnecting ex_connected"
  by (simp_all add: ex_session_queued_def app_sendMessage_parts ex_reconnecting_auth)

text \<open>
  Claim C9 says that the queue processor does nothing while the connection is down,
  and that it is run again when the connection comes back and then delivers the queued
  messages oldest first. The first half holds. The second half fails in the
  application: the handler that runs the processor is the one the chat service
  registers, and the constructor of the auth service puts its own handler in its
  place. Alice starts a session and the connection comes up; the chat service is not
  told, and is still not connected. The connection is lost, A and B are sent and
  queued, the connection comes back: the connection service is \<open>Connected\<close> and has
  told its handler so, the chat service is still not connected, nothing has been handed
  to the transport, and A and B are in the queue, pending, with no attempt made.
\<close>

theorem queue_not_flushed_on_reconnect:
  "connectionState (livekitService (ex_session auth_service_loaded)) = Connected \<and>
   isConnected (chatService (ex_session auth_service_loaded)) = False \<and>
   onConnectionStateChanged_calls (livekitService (ex_session_reconnected auth_service_loaded)) =
     [Connecting, Connected, Reconnecting, Connected] \<and>
   connectionState (livekitService (ex_session_reconnected auth_service_loaded)) = Connected \<and>
   isConnected (chatService (ex_session_reconnected auth_service_loaded)) = False \<and>
   sendChatMessage_calls (chatService (ex_session_reconnected auth_service_loaded)) = [] \<and>
   map (\<lambda>kv. (fst kv, status (snd kv), attempts (snd kv)))
     (messageQueue (chatService (ex_session_reconnected auth_service_loaded))) =
     [(''A'', pending, 0), (''B'', pending, 0)]"
  by (simp add: ex_session_reconnected_def app_livekit_auth ex_queued_auth ex_alice_AB
      ex_session_auth ex_connected_state)
     (simp add: ex_alice_def initialize_def initial_ChatService_def ex_connected_eq
      updateConnectionState_def)

subsection \<open>The same session with the chat service loaded alone\<close>

text \<open>
  With the handlers of the chat service held, the same session hands A to the
  transport when the connection comes back, then B.
\<close>

lemma ex_session_chat:
  "livekitService (ex_session chat_service_loaded) = ex_connected \<and>
   eventHandlers (ex_session chat_service_loaded) = eventHandlers chat_service_loaded \<and>
   chatService (ex_session chat_service_loaded) =
     ex_alice\<lparr>isConnected := True, onChatConnectionStateChanged_calls := [False, True]\<rparr>"
  by (simp add: ex_session_def startSession_def app_livekit_def connect_first Let_def
       chat_loaded_parts initial_calls ex_connected_calls ex_connected_state
       call_onConnectionStateChanged_def handlers_chat
       onConnectionStateChanged_def processMessageQueue_def pendingMessages_def
       initialize_def initial_ChatService_def initial_AuthService_def
       notifySessionStateChanged_def ex_alice_def)

lemma ex_reconnecting_chat:
  "eventHandlers (app_livekit ex_cfg ex_send_ok (Op_event RoomReconnecting)
      (ex_session chat_service_loaded)) OnConnectionStateChanged = Some ChatService_handler"
  "chatService (app_livekit ex_cfg ex_send_ok (Op_event RoomReconnecting)
      (ex_session chat_service_loaded)) =
     ex_alice\<lparr>isConnected := False, onChatConnectionStateChanged_calls := [False, True, False]\<rparr>"
  "livekitService (app_livekit ex_cfg ex_send_ok (Op_event RoomReconnecting)
      (ex_session chat_service_loaded)) = updateConnectionState Reconnecting ex_connected"
  by (simp_all add: app_livekit_chat ex_session_chat handlers_chat)
     (simp add: ex_connected_eq updateConnectionState_def onConnectionStateChanged_def
        ex_alice_def initialize_def initial_ChatService_def)

lemma ex_alice_online_AB:
  "snd (sendMessage ex_cfg ex_send_ok ''B'' 110 110 ''second'' ex_opts
     (snd (sendMessage ex_cfg ex_send_ok ''A'' 100 100 ''first'' ex_opts
        (ex_alice\<lparr>isConnected := False,
                  onChatConnectionStateChanged_calls := [False, True, False]\<rparr>)))) =
   ex_alice
     \<lparr>onChatConnectionStateChanged_calls := [False, True, False],
      messageQueue :=
        [(''A'', \<lparr>message = \<lparr>msg_id = ''A'', senderId = ''alice'', senderName = None,
                            msg_text = ''first'', ts = 100\<rparr>,
                 status = pending, attempts = 0, timestamp = 100, options = ex_opts\<rparr>),
         (''B'', \<lparr>message = \<lparr>msg_id = ''B'', senderId = ''alice'', senderName = None,
                            msg_text = ''second'', ts = 110\<rparr>,
                 status = pending, attempts = 0, timestamp = 110, options = ex_opts\<rparr>)]\<rparr>"
  by (simp add: ex_alice_def initialize_def initial_ChatService_def trim_first trim_second
      sendMessage_def processMessageQueue_def Map_set_def Map_has_def userId_or_unknown_def Let_def)

lemma ex_queued_chat:
  "eventHandlers (ex_session_queued chat_service_loaded) OnConnectionStateChanged =
     Some ChatService_handler"
  "chatService (ex_session_queued chat_service_loaded) =
     snd (sendMessage ex_cfg ex_send_ok ''B'' 110 110 ''second'' ex_opts
       (snd (sendMessage ex_cfg ex_send_ok ''A'' 100 100 ''first'' ex_opts
         (ex_alice\<lparr>isConnected := False,
                   onChatConnectionStateChanged_calls := [False, True, False]\<rparr>))))"
  "livekitService (ex_session_queued chat_service_loaded) =
     updateConnectionState Reconnecting ex_connected"
  by (simp_all add: ex_session_queued_def app_sendMessage_parts ex_reconnecting_chat)

lemma handler_calls:
  "\<not> isConnected s \<Longrightarrow>
   sendChatMessage_calls (onConnectionStateChanged cfg send Connected s) =
     sendChatMessage_calls s @ map message (pendingMessages s)"
  by (simp add: onConnectionStateChanged_def Let_def processMessageQueue_calls
      pendingMessages_cong [of "s\<lparr>isConnected := True\<rparr>" s])

lemma chat_handler_alone_flushes:
  "map msg_id (sendChatMessage_calls (chatService (ex_session_reconnected chat_service_loaded))) =
     [''A'', ''B'']"
  by (simp add: ex_session_reconnected_def app_livekit_chat ex_queued_chat ex_alice_online_AB)
     (simp add: ex_connected_eq updateConnectionState_def handler_calls
        ex_alice_def initialize_def initial_ChatService_def pendingMessages_def)

section \<open>Receiving chat messages\<close>

lemma addToHistory_present:
  "msg_id m \<in> msg_id ` set (messageHistory s) \<Longrightarrow> addToHistory cfg m s = s"
  by (auto simp: addToHistory_def)

text \<open>The ids in the history stay distinct.\<close>

lemma addToHistory_distinct:
  assumes "distinct (map msg_id (messageHistory s))"
  shows "distinct (map msg_id (messageHistory (addToHistory cfg m s)))"
proof (cases "\<exists>x \<in> set (messageHistory s). msg_id x = msg_id m")
  case True
  then show ?thesis using assms by (simp add: addToHistory_def)
next
  case False
  define h where "h = messageHistory s @ [m]"
  have hist: "messageHistory (addToHistory cfg m s) =
      (if length h > MAX_HISTORY_SIZE cfg then drop (length h - MAX_HISTORY_SIZE cfg) h else h)"
    using False unfolding h_def by (simp add: addToHistory_def Let_def)
  have dh: "distinct (map msg_id h)"
    using False assms unfolding h_def by (auto simp: image_iff)
  then have "distinct (drop n (map msg_id h))" for n
    by (rule distinct_drop)
  then have dd: "distinct (map msg_id (drop n h))" for n
    by (simp only: drop_map)
  show ?thesis
    unfolding hist using dh dd by simp
qed

lemma count_one:
  "distinct (map f xs) \<Longrightarrow> x \<in> set xs \<Longrightarrow> length (filter (\<lambda>y. f y = f x) xs) = 1"
proof (induction xs)
  case Nil
  then show ?case by simp
next
  case (Cons a xs)
  show ?case
  proof (cases "f a = f x")
    case True
    with Cons.prems have "filter (\<lambda>y. f y = f x) xs = []"
      by (auto simp: filter_empty_conv image_iff)
    with True show ?thesis by simp
  next
    case False
    with Cons show ?thesis by auto
  qed
qed

lemma ex_payload_valid: "isValidChatMessage ex_payload \<and> \<not> truthy (get_prop ex_payload ''type'')"
  by (simp add: ex_payload_def isValidChatMessage_def)

lemma ex_payload_message:
  "as_ChatMessage ex_payload =
     \<lparr>msg_id = ''m1'', senderId = ''bob'', senderName = None, msg_text = ''hello'', ts = 1000\<rparr>"
  by (simp add: ex_payload_def as_ChatMessage_def)

lemma string_of_int_1001: "string_of_int 1001 = ''1001''"
  by code_simp

lemma ex_once_eq:
  \<open>ex_once = initial_ChatService
     \<lparr>currentUserId := Some ''alice'',
      messageHistory := [as_ChatMessage ex_payload],
      sendChatMessage_calls :=
        [\<lparr>msg_id = ''r1'', senderId = ''alice'', senderName = None,
          msg_text = ''{"type":"delivery_receipt","messageId":"m1","timestamp":1001}'',
          ts = 1002\<rparr>],
      onMessageReceived_calls := [as_ChatMessage ex_payload]\<rparr>\<close>
  by (simp add: ex_once_def ex_alice_def handleIncomingData_def isValidChatMessage_def
      as_ChatMessage_def initialize_def initial_ChatService_def sendDeliveryReceipt_def
      addToHistory_def ex_cfg_def userId_or_unknown_def DeliveryReceipt_def quote_def
      escape_char_def string_of_int_1001 Let_def ex_payload_def)

lemma ex_twice_events:
  "messageHistory ex_twice = [as_ChatMessage ex_payload] \<and>
   onMessageReceived_calls ex_twice = [as_ChatMessage ex_payload, as_ChatMessage ex_payload]"
  by (simp add: ex_twice_def ex_once_eq handleIncomingData_def isValidChatMessage_def
      as_ChatMessage_def initial_ChatService_def sendDeliveryReceipt_def addToHistory_def
      Let_def ex_payload_def)

text \<open>
  Claim C1, as stated, fails on the surfaced events: the same payload received twice
  leaves one entry with its id in the history, but the message event reaches the
  subscribers twice.
\<close>

theorem duplicate_inbound_surfaced_twice:
  "map msg_id (messageHistory ex_twice) = [''m1''] \<and>
   map msg_id (onMessageReceived_calls ex_twice) = [''m1'', ''m1'']"
  by (simp add: ex_twice_events ex_payload_message)

text \<open>
  Claim C1, amended. For every valid inbound chat payload whose id already occurs in
  the history (whose ids are distinct), processing it leaves the history as it was,
  with exactly one entry of that id; the message event is surfaced to the subscribers
  again. The service deduplicates its history, not its events.
\<close>

theorem duplicate_inbound_history_once:
  assumes valid: "isValidChatMessage p" and chat: "\<not> truthy (get_prop p ''type'')"
    and dup: "msg_id (as_ChatMessage p) \<in> msg_id ` set (messageHistory s)"
    and inv: "distinct (map msg_id (messageHistory s))"
  shows "messageHistory (handleIncomingData cfg uuid now1 now2 (Some p) s) = messageHistory s \<and>
         length (filter (\<lambda>x. msg_id x = msg_id (as_ChatMessage p))
                   (messageHistory (handleIncomingData cfg uuid now1 now2 (Some p) s))) = 1 \<and>
         onMessageReceived_calls (handleIncomingData cfg uuid now1 now2 (Some p) s) =
           onMessageReceived_calls s @ [as_ChatMessage p]"
proof -
  obtain kvs where p: "p = JObj kvs"
    using valid by (cases p) (simp_all add: isValidChatMessage_def)
  let ?m = "as_ChatMessage p"
  let ?s1 = "if Some (senderId ?m) \<noteq> currentUserId s
             then sendDeliveryReceipt uuid now1 now2 (msg_id ?m) s else s"
  have h1: "messageHistory ?s1 = messageHistory s"
    "onMessageReceived_calls ?s1 = onMessageReceived_calls s"
    by (simp_all add: sendDeliveryReceipt_def Let_def)
  have "msg_id ?m \<in> msg_id ` set (messageHistory ?s1)"
    using dup h1 by simp
  then have a: "addToHistory cfg ?m ?s1 = ?s1"
    by (rule addToHistory_present)
  have eq: "handleIncomingData cfg uuid now1 now2 (Some p) s =
        ?s1\<lparr>onMessageReceived_calls := onMessageReceived_calls ?s1 @ [?m]\<rparr>"
    using valid chat a unfolding handleIncomingData_def p by (simp add: Let_def)
  obtain x where x: "x \<in> set (messageHistory s)" "msg_id x = msg_id ?m"
    using dup by auto
  have "length (filter (\<lambda>y. msg_id y = msg_id x) (messageHistory s)) = 1"
    using inv x(1) by (rule count_one)
  then show ?thesis
    using h1 x(2) unfolding eq by simp
qed

theorem duplicate_inbound_history_once_witness:
  "isValidChatMessage ex_payload \<and>
   messageHistory ex_once = [as_ChatMessage ex_payload] \<and>
   messageHistory ex_twice = [as_ChatMessage ex_payload] \<and>
   onMessageReceived_calls ex_twice = [as_ChatMessage ex_payload, as_ChatMessage ex_payload]"
  using duplicate_inbound_history_once [of ex_payload ex_once ex_cfg "''r2''" 1003 1004]
    ex_payload_valid
  by (simp add: ex_twice_def ex_once_eq initial_ChatService_def)

section \<open>Control messages on the wire\<close>

lemma handleSystemMessage_keeps:
  "onMessageReceived_calls (handleSystemMessage cfg p s) = onMessageReceived_calls s \<and>
   messageHistory (handleSystemMessage cfg p s) = messageHistory s \<and>
   sendChatMessage_calls (handleSystemMessage cfg p s) = sendChatMessage_calls s"
  by (simp add: handleSystemMessage_def handleDeliveryReceipt_def handleTypingIndicator_def
      store_def Let_def split: option.splits json.splits)

lemma control_dispatch:
  assumes "truthy (get_prop p ''type'')"
  shows "handleIncomingData cfg uuid now1 now2 (Some p) s = handleSystemMessage cfg p s"
proof -
  from assms have "p \<noteq> JNull" by auto
  with assms show ?thesis
    by (cases p) (simp_all add: handleIncomingData_def)
qed

lemma ex_receipt_envelope_eq:
  \<open>ex_receipt_envelope =
     \<lparr>msg_id = ''r1'', senderId = ''alice'', senderName = None,
      msg_text = ''{"type":"delivery_receipt","messageId":"m1","timestamp":1001}'', ts = 1002\<rparr>\<close>
  by (simp add: ex_receipt_envelope_def ex_once_eq initial_ChatService_def)

lemma string_of_int_2000: "string_of_int 2000 = ''2000''"
  by code_simp

lemma ex_typing_envelope_eq:
  \<open>ex_typing_envelope =
     \<lparr>msg_id = ''t1'', senderId = ''alice'', senderName = None,
      msg_text = ''{"type":"typing_indicator","senderId":"alice","isTyping":true,"timestamp":2000}'',
      ts = 2001\<rparr>\<close>
  by (simp add: ex_typing_envelope_def sendTypingIndicator_def ex_alice_def initialize_def
      initial_ChatService_def userId_or_unknown_def TypingIndicator_def quote_def escape_char_def
      string_of_int_2000 Let_def)

text \<open>
  The receiver tells control traffic from chat by the member \<open>type\<close> at the top level
  of the payload. A control object that is itself the payload goes to the control
  handlers: it is not surfaced as a chat message, not added to the history, and no
  receipt is sent for it.
\<close>

lemma bare_control_object_not_surfaced:
  assumes "p = DeliveryReceipt messageId t \<or> p = TypingIndicator sender b t"
  shows "onMessageReceived_calls (handleIncomingData cfg uuid now1 now2 (Some p) s) =
           onMessageReceived_calls s \<and>
         messageHistory (handleIncomingData cfg uuid now1 now2 (Some p) s) = messageHistory s \<and>
         sendChatMessage_calls (handleIncomingData cfg uuid now1 now2 (Some p) s) =
           sendChatMessage_calls s"
proof -
  from assms have "truthy (get_prop p ''type'')"
    by (auto simp: DeliveryReceipt_def TypingIndicator_def)
  then have "handleIncomingData cfg uuid now1 now2 (Some p) s = handleSystemMessage cfg p s"
    by (rule control_dispatch)
  then show ?thesis by (simp add: handleSystemMessage_keeps)
qed

text \<open>
  What \<open>livekitService.sendChatMessage\<close> publishes is the chat message it is given: an
  object with the members \<open>id\<close>, \<open>senderId\<close>, \<open>text\<close> and \<open>ts\<close>, and neither \<open>kind\<close>
  nor \<open>type\<close>. Both \<open>sendDeliveryReceipt\<close> and \<open>sendTypingIndicator\<close> send through it,
  for every input.
\<close>

lemma encode_message_no_discriminator:
  "get_prop (encode_message m) ''kind'' = None \<and> get_prop (encode_message m) ''type'' = None"
  by (simp add: encode_message_def split: option.splits)

lemma sendDeliveryReceipt_sends_chat_message:
  "sendChatMessage_calls (sendDeliveryReceipt uuid now1 now2 messageId s) =
     sendChatMessage_calls s @
       [\<lparr>msg_id = uuid, senderId = userId_or_unknown s, senderName = None,
         msg_text = stringify (DeliveryReceipt messageId now1), ts = now2\<rparr>]"
  by (simp add: sendDeliveryReceipt_def Let_def)

lemma sendTypingIndicator_sends_chat_message:
  "isTyping s \<noteq> b \<Longrightarrow>
   sendChatMessage_calls (sendTypingIndicator cfg published uuid now1 now2 b s) =
     sendChatMessage_calls s @
       [\<lparr>msg_id = uuid, senderId = userId_or_unknown s, senderName = None,
         msg_text = stringify (TypingIndicator (userId_or_unknown s) b now1), ts = now2\<rparr>]"
  by (simp add: sendTypingIndicator_def userId_or_unknown_def Let_def)

text \<open>
  Claim C7 says that receipts and typing indicators go on the wire as the objects
  \<open>{kind: "delivery_receipt", messageId, ts}\<close> and
  \<open>{kind: "typing_indicator", senderId, isTyping, ts}\<close>, with the discriminator at the
  top level, so that a peer never surfaces them as chat. The code builds the control
  object (with \<open>type\<close> and \<open>timestamp\<close> for \<open>kind\<close> and \<open>ts\<close>) and encodes it, but
  does not send the encoding: it sends a chat message whose text is the JSON of the
  object. The receipt alice's service sends for bob's message \<open>m1\<close>, and the indicator
  it sends when she starts typing, have no \<open>kind\<close> and no \<open>type\<close> at the top level;
  bob's service surfaces each as a chat message from alice, adds the receipt to the
  history, and does not call the subscriber for typing.
\<close>

theorem control_sent_as_chat_message:
  \<open>msg_text ex_receipt_envelope = stringify (DeliveryReceipt ''m1'' 1001) \<and>
   get_prop (encode_message ex_receipt_envelope) ''kind'' = None \<and>
   get_prop (encode_message ex_receipt_envelope) ''type'' = None \<and>
   onMessageReceived_calls
     (handleIncomingData ex_cfg ''r2'' 1003 1004 (Some (encode_message ex_receipt_envelope)) ex_bob)
     = [ex_receipt_envelope] \<and>
   messageHistory
     (handleIncomingData ex_cfg ''r2'' 1003 1004 (Some (encode_message ex_receipt_envelope)) ex_bob)
     = [ex_receipt_envelope] \<and>
   msg_text ex_typing_envelope = stringify (TypingIndicator ''alice'' True 2000) \<and>
   get_prop (encode_message ex_typing_envelope) ''kind'' = None \<and>
   get_prop (encode_message ex_typing_envelope) ''type'' = None \<and>
   onMessageReceived_calls
     (handleIncomingData ex_cfg ''r3'' 2002 2003 (Some (encode_message ex_typing_envelope)) ex_bob)
     = [ex_typing_envelope] \<and>
   onTypingIndicator_calls
     (handleIncomingData ex_cfg ''r3'' 2002 2003 (Some (encode_message ex_typing_envelope)) ex_bob)
     = []\<close>
proof -
  have r1: "msg_text ex_receipt_envelope = stringify (DeliveryReceipt ''m1'' 1001)"
    by (simp add: ex_receipt_envelope_eq DeliveryReceipt_def quote_def escape_char_def
        string_of_int_1001)
  have r2: "get_prop (encode_message ex_receipt_envelope) ''kind'' = None \<and>
            get_prop (encode_message ex_receipt_envelope) ''type'' = None"
    by (simp add: ex_receipt_envelope_eq encode_message_def)
  have r3: "onMessageReceived_calls
     (handleIncomingData ex_cfg ''r2'' 1003 1004 (Some (encode_message ex_receipt_envelope)) ex_bob)
     = [ex_receipt_envelope] \<and>
   messageHistory
     (handleIncomingData ex_cfg ''r2'' 1003 1004 (Some (encode_message ex_receipt_envelope)) ex_bob)
     = [ex_receipt_envelope]"
    by (simp add: ex_receipt_envelope_eq encode_message_def handleIncomingData_def
      isValidChatMessage_def as_ChatMessage_def ex_bob_def initialize_def initial_ChatService_def
      sendDeliveryReceipt_def addToHistory_def ex_cfg_def Let_def)
  have t1: "msg_text ex_typing_envelope = stringify (TypingIndicator ''alice'' True 2000)"
    by (simp add: ex_typing_envelope_eq TypingIndicator_def quote_def escape_char_def
        string_of_int_2000)
  have t2: "get_prop (encode_message ex_typing_envelope) ''kind'' = None \<and>
            get_prop (encode_message ex_typing_envelope) ''type'' = None"
    by (simp add: ex_typing_envelope_eq encode_message_def)
  have t3: "onMessageReceived_calls
     (handleIncomingData ex_cfg ''r3'' 2002 2003 (Some (encode_message ex_typing_envelope)) ex_bob)
     = [ex_typing_envelope] \<and>
   onTypingIndicator_calls
     (handleIncomingData ex_cfg ''r3'' 2002 2003 (Some (encode_message ex_typing_envelope)) ex_bob)
     = []"
    by (simp add: ex_typing_envelope_eq encode_message_def handleIncomingData_def
      isValidChatMessage_def as_ChatMessage_def ex_bob_def initialize_def initial_ChatService_def
      sendDeliveryReceipt_def addToHistory_def ex_cfg_def Let_def)
  from r1 r2 r3 t1 t2 t3 show ?thesis by simp
qed

section \<open>Sending a message\<close>










lemma ex_online_eq:
  "ex_online = initial_ChatService
     \<lparr>currentUserId := Some ''alice'', isConnected := True,
      onChatConnectionStateChanged_calls := [True]\<rparr>"
  by (simp add: ex_online_def ex_alice_def onConnectionStateChanged_def initialize_def
      initial_ChatService_def chat_eval)





section \<open>A message whose sends always fail\<close>

lemma ex_attempt1_eq:
  "ex_attempt1 = ex_online
     \<lparr>messageQueue := [(''A'', \<lparr>message = ex_msg_A, status = failed, attempts = 1,
                                 timestamp = 0, options = ex_opts\<rparr>)],
      timers := [RetryTimer ''A'' 1000],
      sendChatMessage_calls := [ex_msg_A]\<rparr>"
  by (simp add: ex_attempt1_def ex_online_eq initial_ChatService_def ex_msg_A_def trim_first chat_eval)

lemma ex_attempt2_eq:
  "ex_attempt2 = ex_online
     \<lparr>messageQueue := [(''A'', \<lparr>message = ex_msg_A, status = failed, attempts = 2,
                                 timestamp = 0, options = ex_opts\<rparr>)],
      timers := [RetryTimer ''A'' 2000],
      sendChatMessage_calls := [ex_msg_A, ex_msg_A]\<rparr>"
  by (simp add: ex_attempt2_def ex_attempt1_eq ex_online_eq initial_ChatService_def ex_msg_A_def chat_eval)

lemma ex_attempt3_eq:
  "ex_attempt3 = ex_online
     \<lparr>messageQueue := [(''A'', \<lparr>message = ex_msg_A, status = failed, attempts = 3,
                                 timestamp = 0, options = ex_opts\<rparr>)],
      timers := [FailedCleanupTimer ''A'' 30000],
      sendChatMessage_calls := [ex_msg_A, ex_msg_A, ex_msg_A],
      onMessageFailed_calls := [''A'']\<rparr>"
  by (simp add: ex_attempt3_def ex_attempt2_eq ex_online_eq initial_ChatService_def ex_msg_A_def chat_eval)

lemma ex_attempt4_eq:
  "ex_attempt4 = ex_online
     \<lparr>messageQueue := [(''A'', \<lparr>message = ex_msg_A, status = failed, attempts = 4,
                                 timestamp = 0, options = ex_opts\<rparr>),
                       (''B'', \<lparr>message = ex_msg_B, status = failed, attempts = 1,
                                 timestamp = 4000, options = ex_opts\<rparr>)],
      timers := [FailedCleanupTimer ''A'' 30000, FailedCleanupTimer ''A'' 30000, RetryTimer ''B'' 1000],
      sendChatMessage_calls := [ex_msg_A, ex_msg_A, ex_msg_A, ex_msg_A, ex_msg_B],
      onMessageFailed_calls := [''A'', ''A'']\<rparr>"
  by (simp add: ex_attempt4_def ex_attempt3_eq ex_online_eq initial_ChatService_def ex_msg_A_def
      ex_msg_B_def trim_second chat_eval)

text \<open>
  Left alone, the message makes exactly three attempts: the third notifies the failure
  and sets the cleanup timer, and when that timer fires the entry leaves the queue.
\<close>

lemma three_attempts_when_alone:
  "map_of (messageQueue ex_attempt1) ''A'' =
     Some \<lparr>message = ex_msg_A, status = failed, attempts = 1, timestamp = 0, options = ex_opts\<rparr> \<and>
   map_of (messageQueue ex_attempt2) ''A'' =
     Some \<lparr>message = ex_msg_A, status = failed, attempts = 2, timestamp = 0, options = ex_opts\<rparr> \<and>
   map_of (messageQueue ex_attempt3) ''A'' =
     Some \<lparr>message = ex_msg_A, status = failed, attempts = 3, timestamp = 0, options = ex_opts\<rparr> \<and>
   onMessageFailed_calls ex_attempt2 = [] \<and>
   onMessageFailed_calls ex_attempt3 = [''A''] \<and>
   timers ex_attempt3 = [FailedCleanupTimer ''A'' 30000] \<and>
   messageQueue (fire ex_cfg ex_send_fail (FailedCleanupTimer ''A'' 30000) ex_attempt3) = []"
  by (simp add: ex_attempt1_eq ex_attempt2_eq ex_attempt3_eq ex_online_eq initial_ChatService_def
      Map_delete_def)

text \<open>
  Claim C8 against the code. With three attempts configured, message A has failed three
  times and its failure has been notified; its entry keeps the status \<open>failed\<close> until
  the cleanup timer fires. Message B is sent before that: the pass that \<open>sendMessage\<close>
  runs takes every \<open>failed\<close> entry, so A is handed to the transport a fourth time and
  its failure is notified a second time.
\<close>

theorem terminal_failure_retried_by_later_pass:
  "CHAT_MAX_RETRY_ATTEMPTS ex_cfg = 3 \<and>
   map_of (messageQueue ex_attempt3) ''A'' =
     Some \<lparr>message = ex_msg_A, status = failed, attempts = 3, timestamp = 0, options = ex_opts\<rparr> \<and>
   onMessageFailed_calls ex_attempt3 = [''A''] \<and>
   timers ex_attempt3 = [FailedCleanupTimer ''A'' 30000] \<and>
   map_of (messageQueue ex_attempt4) ''A'' =
     Some \<lparr>message = ex_msg_A, status = failed, attempts = 4, timestamp = 0, options = ex_opts\<rparr> \<and>
   sendChatMessage_calls ex_attempt4 = [ex_msg_A, ex_msg_A, ex_msg_A, ex_msg_A, ex_msg_B] \<and>
   onMessageFailed_calls ex_attempt4 = [''A'', ''A'']"
  by (simp add: ex_attempt3_eq ex_attempt4_eq ex_online_eq initial_ChatService_def ex_cfg_def)

end
